theory Spec2Isabelle
  imports Complex_Main "HOL-Library.Word" "HOL-Library.List_Lexorder" "HOL-Library.Char_ord"
    "HOL-Library.Multiset"
begin

section \<open>Python values\<close>

text \<open>
  The SDK passes JSON-like Python values around: parameter bags, response envelopes and
  callback payloads are dicts whose values are \<open>None\<close>, booleans, integers, floats, strings,
  lists and dicts. A float is a finite double, taken by its exact rational value, or one
  of the three special values. A \<open>str\<close> is a list of characters, one \<open>char\<close> per code point
  (code points below 256), so that \<open>length\<close> is Python's \<open>len\<close>. A dict is an association
  list in insertion order, with string keys.
\<close>

datatype pyfloat = Finite rat | PosInf | NegInf | NaN

datatype pyval =
    PNone
  | PBool bool
  | PInt int
  | PFloat pyfloat
  | PStr string
  | PList "pyval list"
  | PDict "(string \<times> pyval) list"

type_synonym pydict = "(string \<times> pyval) list"

text \<open>\<open>d.get(k)\<close>: the value stored under \<open>k\<close>, and \<open>None\<close> for a key that is absent.\<close>

definition dict_get :: "pydict \<Rightarrow> string \<Rightarrow> pyval" where
  "dict_get d k = (case map_of d k of None \<Rightarrow> PNone | Some v \<Rightarrow> v)"

text \<open>Truth value testing, as \<open>not x\<close> and \<open>if x\<close> do it.\<close>

fun truthy :: "pyval \<Rightarrow> bool" where
  "truthy PNone = False"
| "truthy (PBool b) = b"
| "truthy (PInt i) = (i \<noteq> 0)"
| "truthy (PFloat x) = (x \<noteq> Finite 0)"
| "truthy (PStr s) = (s \<noteq> [])"
| "truthy (PList xs) = (xs \<noteq> [])"
| "truthy (PDict d) = (d \<noteq> [])"

section \<open>Exceptions\<close>

text \<open>
  Every \<open>raise\<close> of the SDK is one constructor of \<open>failure\<close>, named after the error
  taxonomy of the specification, with the field or the endpoint that its message names.
  The exception classes of the two variants of the SDK (\<open>MaibPaymentException\<close> in
  \<open>maib_sdk.py\<close>, \<open>MAIBPaymentException\<close> and \<open>MAIBTokenException\<close> in \<open>maibsdk.py\<close>) wrap a
  failure; the remaining constructors are the built-in exceptions of Python.
\<close>

datatype failure =
    MissingParameter string
  | InvalidParameter string
  | InvalidItemParameter string
  | InvalidToken
  | MissingId
  | InvalidId
  | InvalidSignatureKey
  | MissingSignatureData
  | MissingCallbackSignature
  | MissingResult string
  | GatewayError string pyval pyval
  | MalformedEnvelope string
  | TokenCredentialsRequired
  | TokenHttpError

datatype error =
    MaibPaymentException failure
  | MAIBPaymentException failure
  | MAIBTokenException failure
  | AttributeError
  | TypeError
  | KeyError
  | IndexError

text \<open>Statements in sequence: the second runs only if the first did not raise.\<close>

definition andthen :: "error + unit \<Rightarrow> error + 'a \<Rightarrow> error + 'a" where
  "andthen a b = (case a of Inl e \<Rightarrow> Inl e | Inr _ \<Rightarrow> b)"

text \<open>\<open>len(x)\<close>: defined on strings, lists and dicts, a \<open>TypeError\<close> on everything else.\<close>

fun py_len :: "pyval \<Rightarrow> error + nat" where
  "py_len (PStr s) = Inr (length s)"
| "py_len (PList xs) = Inr (length xs)"
| "py_len (PDict d) = Inr (length d)"
| "py_len _ = Inl TypeError"

text \<open>
  \<open>x[0]\<close>: the first element of a list or the first character of a string (\<open>IndexError\<close>
  when empty), a \<open>KeyError\<close> on a dict (its keys are strings), a \<open>TypeError\<close> on the
  values that cannot be subscripted.
\<close>

fun py_item0 :: "pyval \<Rightarrow> error + pyval" where
  "py_item0 (PList []) = Inl IndexError"
| "py_item0 (PList (x # xs)) = Inr x"
| "py_item0 (PStr []) = Inl IndexError"
| "py_item0 (PStr (c # cs)) = Inr (PStr [c])"
| "py_item0 (PDict d) = Inl KeyError"
| "py_item0 _ = Inl TypeError"

text \<open>\<open>x.get(k)\<close> on any value: only a dict has the method.\<close>

fun py_get :: "pyval \<Rightarrow> string \<Rightarrow> error + pyval" where
  "py_get (PDict d) k = Inr (dict_get d k)"
| "py_get _ k = Inl AttributeError"

section \<open>Entity identifiers\<close>

text \<open>
  \<open>MaibApi.__validate_id_param\<close> (\<open>maib_api.py\<close>) and \<open>MAIBAPI.validate_id_param\<close>
  (\<open>maibapi.py\<close>): the same two tests, raising the exception class of their variant.
\<close>

definition MaibApi_validate_id_param :: "pyval \<Rightarrow> error + unit" where
  "MaibApi_validate_id_param entity_id =
     (if \<not> truthy entity_id then Inl (MaibPaymentException MissingId)
      else case py_len entity_id of
             Inl e \<Rightarrow> Inl e
           | Inr n \<Rightarrow> if n = 0 then Inl (MaibPaymentException InvalidId) else Inr ())"

definition MAIBAPI_validate_id_param :: "pyval \<Rightarrow> error + unit" where
  "MAIBAPI_validate_id_param entity_id =
     (if \<not> truthy entity_id then Inl (MAIBPaymentException MissingId)
      else case py_len entity_id of
             Inl e \<Rightarrow> Inl e
           | Inr n \<Rightarrow> if n = 0 then Inl (MAIBPaymentException InvalidId) else Inr ())"

section \<open>Response envelopes\<close>

text \<open>
  \<open>handle_response\<close> of both variants. The response is whatever the transport returned;
  \<open>response.get\<close> needs it to be a dict. \<open>response_ok is True\<close> holds for the boolean
  \<open>True\<close> alone.
\<close>

definition MaibSdk_handle_response :: "pyval \<Rightarrow> string \<Rightarrow> error + pyval" where
  "MaibSdk_handle_response response endpoint =
     (case py_get response ''ok'' of
        Inl e \<Rightarrow> Inl e
      | Inr response_ok \<Rightarrow>
          if response_ok \<noteq> PNone \<and> response_ok = PBool True then
            (case py_get response ''result'' of
               Inl e \<Rightarrow> Inl e
             | Inr response_result \<Rightarrow>
                 if response_result \<noteq> PNone then Inr response_result
                 else Inl (MaibPaymentException (MissingResult endpoint)))
          else
            (case py_get response ''errors'' of
               Inl e \<Rightarrow> Inl e
             | Inr response_errors \<Rightarrow>
                 if response_errors \<noteq> PNone then
                   (case py_item0 response_errors of
                      Inl e \<Rightarrow> Inl e
                    | Inr err \<Rightarrow>
                        (case py_get err ''errorMessage'' of
                           Inl e \<Rightarrow> Inl e
                         | Inr error_message \<Rightarrow>
                             (case py_get err ''errorCode'' of
                                Inl e \<Rightarrow> Inl e
                              | Inr error_code \<Rightarrow>
                                  Inl (MaibPaymentException
                                        (GatewayError endpoint error_message error_code)))))
                 else Inl (MaibPaymentException (MalformedEnvelope endpoint))))"

definition MAIBSDK_handle_response :: "pyval \<Rightarrow> string \<Rightarrow> error + pyval" where
  "MAIBSDK_handle_response response endpoint =
     (case py_get response ''ok'' of
        Inl e \<Rightarrow> Inl e
      | Inr response_ok \<Rightarrow>
          if response_ok \<noteq> PNone \<and> response_ok = PBool True then
            (case py_get response ''result'' of
               Inl e \<Rightarrow> Inl e
             | Inr response_result \<Rightarrow>
                 if response_result \<noteq> PNone then Inr response_result
                 else Inl (MAIBPaymentException (MissingResult endpoint)))
          else
            (case py_get response ''errors'' of
               Inl e \<Rightarrow> Inl e
             | Inr response_errors \<Rightarrow>
                 if response_errors \<noteq> PNone then
                   (case py_item0 response_errors of
                      Inl e \<Rightarrow> Inl e
                    | Inr err \<Rightarrow>
                        (case py_get err ''errorMessage'' of
                           Inl e \<Rightarrow> Inl e
                         | Inr error_message \<Rightarrow>
                             (case py_get err ''errorCode'' of
                                Inl e \<Rightarrow> Inl e
                              | Inr error_code \<Rightarrow>
                                  Inl (MAIBPaymentException
                                        (GatewayError endpoint error_message error_code)))))
                 else Inl (MAIBPaymentException (MalformedEnvelope endpoint))))"

section \<open>Token generation\<close>

definition GET_TOKEN :: string where
  "GET_TOKEN = ''generate-token''"

text \<open>
  \<open>MAIBAuth.generate_token\<close> (\<open>maibauth.py\<close>). The HTTP exchange belongs to the transport,
  \<open>MAIBSDK.send_request\<close>: it is the parameter \<open>send_request\<close>, taking the method, the
  endpoint and the JSON body, and returning the decoded response or raising. Whatever
  the transport raises is replaced by the token exception of the \<open>except\<close> clause.
\<close>

type_synonym transport = "string \<Rightarrow> string \<Rightarrow> pydict \<Rightarrow> error + pyval"

definition token_post_data :: "pyval \<Rightarrow> pyval \<Rightarrow> pydict" where
  "token_post_data project_id project_secret =
     (if project_id \<noteq> PNone \<and> project_secret \<noteq> PNone then
        [(''projectId'', project_id), (''projectSecret'', project_secret)]
      else if project_id \<noteq> PNone \<and> project_secret = PNone then
        [(''refreshToken'', project_id)]
      else [])"

definition MAIBAuth_generate_token :: "transport \<Rightarrow> pyval \<Rightarrow> pyval \<Rightarrow> error + pyval" where
  "MAIBAuth_generate_token send_request project_id project_secret =
     (if project_id = PNone \<and> project_secret = PNone then
        Inl (MAIBTokenException TokenCredentialsRequired)
      else
        (case send_request ''POST'' GET_TOKEN (token_post_data project_id project_secret) of
           Inl ex \<Rightarrow> Inl (MAIBTokenException TokenHttpError)
         | Inr response \<Rightarrow> MAIBSDK_handle_response response GET_TOKEN))"

section \<open>Request validation\<close>

text \<open>The required parameters of the operations (\<open>maib_api.py\<close>).\<close>

definition REQUIRED_PAY_PARAMS :: "string list" where
  "REQUIRED_PAY_PARAMS = [''amount'', ''currency'', ''clientIp'']"

definition REQUIRED_PAYID_PARAMS :: "string list" where
  "REQUIRED_PAYID_PARAMS = [''payId'']"

definition REQUIRED_SAVE_PARAMS :: "string list" where
  "REQUIRED_SAVE_PARAMS = [''billerExpiry'', ''currency'', ''clientIp'']"

definition REQUIRED_EXECUTE_RECURRING_PARAMS :: "string list" where
  "REQUIRED_EXECUTE_RECURRING_PARAMS = [''billerId'', ''amount'', ''currency'']"

definition REQUIRED_EXECUTE_ONECLICK_PARAMS :: "string list" where
  "REQUIRED_EXECUTE_ONECLICK_PARAMS = [''billerId'', ''amount'', ''currency'', ''clientIp'']"

text \<open>
  Numbers. \<open>isinstance(x, (float, int))\<close> holds for floats, integers and booleans (\<open>bool\<close> is a
  subclass of \<open>int\<close>, with \<open>True\<close> as 1 and \<open>False\<close> as 0), \<open>isinstance(x, int)\<close> for integers
  and booleans. \<open>py_number\<close> and \<open>py_integer\<close> give the numeric value of such an \<open>x\<close>.
  A comparison \<open>x < c\<close> with a finite constant is exact, also between an integer and a
  float; it is false for \<open>nan\<close>.
\<close>

fun py_number :: "pyval \<Rightarrow> pyfloat option" where
  "py_number (PBool b) = Some (Finite (if b then 1 else 0))"
| "py_number (PInt i) = Some (Finite (of_int i))"
| "py_number (PFloat x) = Some x"
| "py_number _ = None"

fun py_integer :: "pyval \<Rightarrow> int option" where
  "py_integer (PBool b) = Some (if b then 1 else 0)"
| "py_integer (PInt i) = Some i"
| "py_integer _ = None"

fun float_lt :: "pyfloat \<Rightarrow> rat \<Rightarrow> bool" where
  "float_lt (Finite r) c = (r < c)"
| "float_lt NegInf c = True"
| "float_lt PosInf c = False"
| "float_lt NaN c = False"

text \<open>The float literal \<open>0.01\<close>: the double nearest to one hundredth.\<close>

definition float_0_01 :: rat where
  "float_0_01 = 5764607523034235 / 2 ^ 59"

text \<open>The loop over \<open>required_params\<close>.\<close>

fun check_required :: "pydict \<Rightarrow> string list \<Rightarrow> error + unit" where
  "check_required data [] = Inr ()"
| "check_required data (param # required_params) =
     (if dict_get data param = PNone
      then Inl (MaibPaymentException (MissingParameter param))
      else check_required data required_params)"

text \<open>
  The blocks of \<open>MaibApi.__validate_pay_params\<close>, one definition for each, in the order of
  the source. In \<open>not isinstance(x, str) or len(x) != 36\<close> the right operand is evaluated
  only for a string; the \<open>case\<close> expressions follow that.
\<close>

definition check_biller_id :: "pydict \<Rightarrow> error + unit" where
  "check_biller_id data =
     (let biller_id = dict_get data ''billerId'' in
      if biller_id \<noteq> PNone then
        if (case biller_id of PStr s \<Rightarrow> length s \<noteq> 36 | _ \<Rightarrow> True)
        then Inl (MaibPaymentException (InvalidParameter ''billerId''))
        else Inr ()
      else Inr ())"

definition check_biller_expiry :: "pydict \<Rightarrow> error + unit" where
  "check_biller_expiry data =
     (let biller_expiry = dict_get data ''billerExpiry'' in
      if biller_expiry \<noteq> PNone then
        if (case biller_expiry of PStr s \<Rightarrow> length s \<noteq> 4 | _ \<Rightarrow> True)
        then Inl (MaibPaymentException (InvalidParameter ''billerExpiry''))
        else Inr ()
      else Inr ())"

definition check_pay_id :: "pydict \<Rightarrow> error + unit" where
  "check_pay_id data =
     (let pay_id = dict_get data ''payId'' in
      if pay_id \<noteq> PNone then
        if (case pay_id of PStr s \<Rightarrow> length s > 36 | _ \<Rightarrow> True)
        then Inl (MaibPaymentException (InvalidParameter ''payId''))
        else Inr ()
      else Inr ())"

definition check_confirm_amount :: "pydict \<Rightarrow> error + unit" where
  "check_confirm_amount data =
     (let confirm_amount = dict_get data ''confirmAmount'' in
      if confirm_amount \<noteq> PNone then
        if (case py_number confirm_amount of None \<Rightarrow> True | Some x \<Rightarrow> float_lt x float_0_01)
        then Inl (MaibPaymentException (InvalidParameter ''confirmAmount''))
        else Inr ()
      else Inr ())"

definition check_amount :: "pydict \<Rightarrow> error + unit" where
  "check_amount data =
     (let amount = dict_get data ''amount'' in
      if amount \<noteq> PNone then
        if (case py_number amount of None \<Rightarrow> True | Some x \<Rightarrow> float_lt x 1)
        then Inl (MaibPaymentException (InvalidParameter ''amount''))
        else Inr ()
      else Inr ())"

definition check_refund_amount :: "pydict \<Rightarrow> error + unit" where
  "check_refund_amount data =
     (let refund_amount = dict_get data ''refundAmount'' in
      if refund_amount \<noteq> PNone then
        if (case py_number refund_amount of None \<Rightarrow> True | Some x \<Rightarrow> float_lt x float_0_01)
        then Inl (MaibPaymentException (InvalidParameter ''refundAmount''))
        else Inr ()
      else Inr ())"

definition check_currency :: "pydict \<Rightarrow> error + unit" where
  "check_currency data =
     (let currency = dict_get data ''currency'' in
      if currency \<noteq> PNone then
        if (case currency of PStr s \<Rightarrow> s \<notin> set [''MDL'', ''EUR'', ''USD''] | _ \<Rightarrow> True)
        then Inl (MaibPaymentException (InvalidParameter ''currency''))
        else Inr ()
      else Inr ())"

definition check_client_ip :: "pydict \<Rightarrow> error + unit" where
  "check_client_ip data =
     (let client_ip = dict_get data ''clientIp'' in
      if client_ip \<noteq> PNone then
        if (case client_ip of PStr s \<Rightarrow> False | _ \<Rightarrow> True)
        then Inl (MaibPaymentException (InvalidParameter ''clientIp''))
        else Inr ()
      else Inr ())"

definition check_language :: "pydict \<Rightarrow> error + unit" where
  "check_language data =
     (let language = dict_get data ''language'' in
      if language \<noteq> PNone then
        if (case language of PStr s \<Rightarrow> length s \<noteq> 2 | _ \<Rightarrow> True)
        then Inl (MaibPaymentException (InvalidParameter ''language''))
        else Inr ()
      else Inr ())"

definition check_description :: "pydict \<Rightarrow> error + unit" where
  "check_description data =
     (let description = dict_get data ''description'' in
      if description \<noteq> PNone then
        if (case description of PStr s \<Rightarrow> length s > 124 | _ \<Rightarrow> True)
        then Inl (MaibPaymentException (InvalidParameter ''description''))
        else Inr ()
      else Inr ())"

definition check_client_name :: "pydict \<Rightarrow> error + unit" where
  "check_client_name data =
     (let client_name = dict_get data ''clientName'' in
      if client_name \<noteq> PNone then
        if (case client_name of PStr s \<Rightarrow> length s > 128 | _ \<Rightarrow> True)
        then Inl (MaibPaymentException (InvalidParameter ''clientName''))
        else Inr ()
      else Inr ())"

definition check_email :: "pydict \<Rightarrow> error + unit" where
  "check_email data =
     (let email = dict_get data ''email'' in
      if email \<noteq> PNone then
        if (case email of PStr s \<Rightarrow> False | _ \<Rightarrow> True)
        then Inl (MaibPaymentException (InvalidParameter ''email''))
        else Inr ()
      else Inr ())"

definition check_phone :: "pydict \<Rightarrow> error + unit" where
  "check_phone data =
     (let phone = dict_get data ''phone'' in
      if phone \<noteq> PNone then
        if (case phone of PStr s \<Rightarrow> length s > 40 | _ \<Rightarrow> True)
        then Inl (MaibPaymentException (InvalidParameter ''phone''))
        else Inr ()
      else Inr ())"

definition check_order_id :: "pydict \<Rightarrow> error + unit" where
  "check_order_id data =
     (let order_id = dict_get data ''orderId'' in
      if order_id \<noteq> PNone then
        if (case order_id of PStr s \<Rightarrow> length s > 36 | _ \<Rightarrow> True)
        then Inl (MaibPaymentException (InvalidParameter ''orderId''))
        else Inr ()
      else Inr ())"

definition check_delivery :: "pydict \<Rightarrow> error + unit" where
  "check_delivery data =
     (let delivery = dict_get data ''delivery'' in
      if delivery \<noteq> PNone then
        if (case py_number delivery of None \<Rightarrow> True | Some x \<Rightarrow> float_lt x 0)
        then Inl (MaibPaymentException (InvalidParameter ''delivery''))
        else Inr ()
      else Inr ())"

text \<open>
  The body of the loop over \<open>items\<close>. \<open>item.get\<close> needs the element to be a dict; on any
  other element the first \<open>item.get('id')\<close> raises \<open>AttributeError\<close>.
\<close>

definition check_item_id :: "pydict \<Rightarrow> error + unit" where
  "check_item_id item =
     (let item_id = dict_get item ''id'' in
      if item_id \<noteq> PNone then
        if (case item_id of PStr s \<Rightarrow> length s > 36 | _ \<Rightarrow> True)
        then Inl (MaibPaymentException (InvalidItemParameter ''id''))
        else Inr ()
      else Inr ())"

definition check_item_name :: "pydict \<Rightarrow> error + unit" where
  "check_item_name item =
     (let item_name = dict_get item ''name'' in
      if item_name \<noteq> PNone then
        if (case item_name of PStr s \<Rightarrow> length s > 128 | _ \<Rightarrow> True)
        then Inl (MaibPaymentException (InvalidItemParameter ''name''))
        else Inr ()
      else Inr ())"

definition check_item_price :: "pydict \<Rightarrow> error + unit" where
  "check_item_price item =
     (let item_price = dict_get item ''price'' in
      if item_price \<noteq> PNone then
        if (case py_number item_price of None \<Rightarrow> True | Some x \<Rightarrow> float_lt x 0)
        then Inl (MaibPaymentException (InvalidItemParameter ''price''))
        else Inr ()
      else Inr ())"

definition check_item_quantity :: "pydict \<Rightarrow> error + unit" where
  "check_item_quantity item =
     (let quantity = dict_get item ''quantity'' in
      if quantity \<noteq> PNone then
        if (case py_integer quantity of None \<Rightarrow> True | Some n \<Rightarrow> n < 0)
        then Inl (MaibPaymentException (InvalidItemParameter ''quantity''))
        else Inr ()
      else Inr ())"

fun check_item :: "pyval \<Rightarrow> error + unit" where
  "check_item (PDict item) =
     andthen (check_item_id item)
    (andthen (check_item_name item)
    (andthen (check_item_price item)
             (check_item_quantity item)))"
| "check_item _ = Inl AttributeError"

fun check_each_item :: "pyval list \<Rightarrow> error + unit" where
  "check_each_item [] = Inr ()"
| "check_each_item (item # items) = andthen (check_item item) (check_each_item items)"

definition check_items :: "pydict \<Rightarrow> error + unit" where
  "check_items data =
     (let items = dict_get data ''items'' in
      if items \<noteq> PNone then
        (case items of
           PList xs \<Rightarrow>
             if length xs = 0
             then Inl (MaibPaymentException (InvalidParameter ''items''))
             else check_each_item xs
         | _ \<Rightarrow> Inl (MaibPaymentException (InvalidParameter ''items'')))
      else Inr ())"

definition check_callback_url :: "pydict \<Rightarrow> error + unit" where
  "check_callback_url data =
     (let callback_url = dict_get data ''callbackUrl'' in
      if callback_url \<noteq> PNone then
        if (case callback_url of PStr s \<Rightarrow> False | _ \<Rightarrow> True)
        then Inl (MaibPaymentException (InvalidParameter ''callbackUrl''))
        else Inr ()
      else Inr ())"

definition check_ok_url :: "pydict \<Rightarrow> error + unit" where
  "check_ok_url data =
     (let ok_url = dict_get data ''okUrl'' in
      if ok_url \<noteq> PNone then
        if (case ok_url of PStr s \<Rightarrow> False | _ \<Rightarrow> True)
        then Inl (MaibPaymentException (InvalidParameter ''okUrl''))
        else Inr ()
      else Inr ())"

definition check_fail_url :: "pydict \<Rightarrow> error + unit" where
  "check_fail_url data =
     (let fail_url = dict_get data ''failUrl'' in
      if fail_url \<noteq> PNone then
        if (case fail_url of PStr s \<Rightarrow> False | _ \<Rightarrow> True)
        then Inl (MaibPaymentException (InvalidParameter ''failUrl''))
        else Inr ()
      else Inr ())"

text \<open>\<open>MaibApi.__validate_pay_params\<close>: the loop, the nineteen blocks, \<open>return True\<close>.\<close>

definition MaibApi_validate_pay_params :: "pydict \<Rightarrow> string list \<Rightarrow> error + bool" where
  "MaibApi_validate_pay_params data required_params =
     andthen (check_required data required_params)
    (andthen (check_biller_id data)
    (andthen (check_biller_expiry data)
    (andthen (check_pay_id data)
    (andthen (check_confirm_amount data)
    (andthen (check_amount data)
    (andthen (check_refund_amount data)
    (andthen (check_currency data)
    (andthen (check_client_ip data)
    (andthen (check_language data)
    (andthen (check_description data)
    (andthen (check_client_name data)
    (andthen (check_email data)
    (andthen (check_phone data)
    (andthen (check_order_id data)
    (andthen (check_delivery data)
    (andthen (check_items data)
    (andthen (check_callback_url data)
    (andthen (check_ok_url data)
    (andthen (check_fail_url data)
             (Inr True))))))))))))))))))))"

text \<open>
  The blocks by the name of the field they read, in the order of the source, and the part
  of the validation that runs before the block of a given field.
\<close>

definition pay_checks :: "(string \<times> (pydict \<Rightarrow> error + unit)) list" where
  "pay_checks =
     [(''billerId'', check_biller_id), (''billerExpiry'', check_biller_expiry),
      (''payId'', check_pay_id), (''confirmAmount'', check_confirm_amount),
      (''amount'', check_amount), (''refundAmount'', check_refund_amount),
      (''currency'', check_currency), (''clientIp'', check_client_ip),
      (''language'', check_language), (''description'', check_description),
      (''clientName'', check_client_name), (''email'', check_email),
      (''phone'', check_phone), (''orderId'', check_order_id),
      (''delivery'', check_delivery), (''items'', check_items),
      (''callbackUrl'', check_callback_url), (''okUrl'', check_ok_url),
      (''failUrl'', check_fail_url)]"

fun first_failure :: "(error + unit) list \<Rightarrow> error + unit" where
  "first_failure [] = Inr ()"
| "first_failure (c # cs) = andthen c (first_failure cs)"

definition checks_before :: "string \<Rightarrow> pydict \<Rightarrow> string list \<Rightarrow> error + unit" where
  "checks_before field data required_params =
     andthen (check_required data required_params)
       (first_failure
          (map (\<lambda>(name, check). check data)
               (takeWhile (\<lambda>(name, check). name \<noteq> field) pay_checks)))"

subsection \<open>The validation as the specification words it\<close>

text \<open>
  The specification describes the validation as a table of fields, each with a
  constraint, read in a fixed order: first the required fields, each failing with
  \<open>MissingParameter\<close> when absent or null, then the constraint of every field that is
  present, the first violation being the one reported. \<open>field_rules\<close> is that table, in
  the order of the specification, with the constraints that the code enforces.
\<close>

type_synonym rule = "pyval \<Rightarrow> error + unit"

definition constraint :: "string \<Rightarrow> (pyval \<Rightarrow> bool) \<Rightarrow> string \<times> rule" where
  "constraint field valid =
     (field, \<lambda>v. if valid v then Inr () else Inl (MaibPaymentException (InvalidParameter field)))"

definition string_of_length :: "(nat \<Rightarrow> bool) \<Rightarrow> pyval \<Rightarrow> bool" where
  "string_of_length P v = (case v of PStr s \<Rightarrow> P (length s) | _ \<Rightarrow> False)"

definition string_among :: "string list \<Rightarrow> pyval \<Rightarrow> bool" where
  "string_among xs v = (case v of PStr s \<Rightarrow> s \<in> set xs | _ \<Rightarrow> False)"

definition number_not_below :: "rat \<Rightarrow> pyval \<Rightarrow> bool" where
  "number_not_below c v = (case py_number v of None \<Rightarrow> False | Some x \<Rightarrow> \<not> float_lt x c)"

definition items_rule :: rule where
  "items_rule v =
     (case v of
        PList xs \<Rightarrow>
          if xs = [] then Inl (MaibPaymentException (InvalidParameter ''items''))
          else check_each_item xs
      | _ \<Rightarrow> Inl (MaibPaymentException (InvalidParameter ''items'')))"

definition field_rules :: "(string \<times> rule) list" where
  "field_rules =
     [constraint ''billerId'' (string_of_length (\<lambda>n. n = 36)),
      constraint ''billerExpiry'' (string_of_length (\<lambda>n. n = 4)),
      constraint ''payId'' (string_of_length (\<lambda>n. n \<le> 36)),
      constraint ''confirmAmount'' (number_not_below float_0_01),
      constraint ''amount'' (number_not_below 1),
      constraint ''refundAmount'' (number_not_below float_0_01),
      constraint ''currency'' (string_among [''MDL'', ''EUR'', ''USD'']),
      constraint ''clientIp'' (string_of_length (\<lambda>n. True)),
      constraint ''language'' (string_of_length (\<lambda>n. n = 2)),
      constraint ''description'' (string_of_length (\<lambda>n. n \<le> 124)),
      constraint ''clientName'' (string_of_length (\<lambda>n. n \<le> 128)),
      constraint ''email'' (string_of_length (\<lambda>n. True)),
      constraint ''phone'' (string_of_length (\<lambda>n. n \<le> 40)),
      constraint ''orderId'' (string_of_length (\<lambda>n. n \<le> 36)),
      constraint ''delivery'' (number_not_below 0),
      (''items'', items_rule),
      constraint ''callbackUrl'' (string_of_length (\<lambda>n. True)),
      constraint ''okUrl'' (string_of_length (\<lambda>n. True)),
      constraint ''failUrl'' (string_of_length (\<lambda>n. True))]"

text \<open>A rule is applied only to a field that is present (with a value other than null).\<close>

definition apply_rule :: "pydict \<Rightarrow> string \<times> rule \<Rightarrow> error + unit" where
  "apply_rule data fr =
     (case map_of data (fst fr) of
        None \<Rightarrow> Inr ()
      | Some v \<Rightarrow> if v = PNone then Inr () else snd fr v)"

definition first_violation :: "pydict \<Rightarrow> string list \<Rightarrow> error + bool" where
  "first_violation data required_params =
     (case find (\<lambda>param. dict_get data param = PNone) required_params of
        Some param \<Rightarrow> Inl (MaibPaymentException (MissingParameter param))
      | None \<Rightarrow>
          (case first_failure (map (apply_rule data) field_rules) of
             Inl e \<Rightarrow> Inl e
           | Inr _ \<Rightarrow> Inr True))"

subsection \<open>Groups of fields\<close>

text \<open>
  The five fields whose blocks test the type alone, and the four numeric fields with the
  minimum that their block compares against.
\<close>

definition string_fields :: "(string \<times> (pydict \<Rightarrow> error + unit)) list" where
  "string_fields =
     [(''clientIp'', check_client_ip), (''email'', check_email),
      (''callbackUrl'', check_callback_url), (''okUrl'', check_ok_url),
      (''failUrl'', check_fail_url)]"

definition minimum_bounds :: "(string \<times> (pydict \<Rightarrow> error + unit) \<times> rat) list" where
  "minimum_bounds =
     [(''confirmAmount'', check_confirm_amount, float_0_01), (''amount'', check_amount, 1),
      (''refundAmount'', check_refund_amount, float_0_01), (''delivery'', check_delivery, 0)]"

section \<open>Callback signatures\<close>

text \<open>
  The pieces of Python that \<open>validate_callback_signature\<close> is made of. \<open>str(x)\<close> is the
  string itself for a string, \<open>None\<close>, \<open>True\<close> and \<open>False\<close> by name, and the \<open>repr\<close> of every
  other value; that \<open>repr\<close> (of numbers, lists and dicts) is a parameter.
\<close>

fun py_str :: "(pyval \<Rightarrow> string) \<Rightarrow> pyval \<Rightarrow> string" where
  "py_str repr (PStr s) = s"
| "py_str repr PNone = ''None''"
| "py_str repr (PBool b) = (if b then ''True'' else ''False'')"
| "py_str repr v = repr v"

text \<open>\<open>x.items()\<close>: only a dict has the method.\<close>

fun py_items :: "pyval \<Rightarrow> error + (string \<times> pyval) list" where
  "py_items (PDict d) = Inr d"
| "py_items _ = Inl AttributeError"

text \<open>
  \<open>sorted\<close> on the items of a dict compares the pairs by their keys (strings, compared by
  code points); the keys of a dict are distinct, so the values are never compared.
\<close>

definition sorted_items :: "(string \<times> pyval) list \<Rightarrow> (string \<times> pyval) list" where
  "sorted_items kvs = sort_key fst kvs"

text \<open>
  \<open>d[k] = v\<close>, and the dict that a comprehension builds from pairs in the order given: a
  key met again keeps its place and takes the later value.
\<close>

fun dict_set :: "pydict \<Rightarrow> string \<Rightarrow> pyval \<Rightarrow> pydict" where
  "dict_set [] k v = [(k, v)]"
| "dict_set ((k', v') # d) k v =
     (if k' = k then (k', v) # d else (k', v') # dict_set d k v)"

definition dict_of_pairs :: "(string \<times> pyval) list \<Rightarrow> pydict" where
  "dict_of_pairs kvs = foldl (\<lambda>d (k, v). dict_set d k v) [] kvs"

definition dict_values :: "pydict \<Rightarrow> pyval list" where
  "dict_values d = map snd d"

text \<open>\<open>sep.join(xs)\<close>: a \<open>TypeError\<close> unless every element is a string.\<close>

fun join_with :: "string \<Rightarrow> string list \<Rightarrow> string" where
  "join_with sep [] = []"
| "join_with sep [x] = x"
| "join_with sep (x # y # ys) = x @ sep @ join_with sep (y # ys)"

fun strings_of :: "pyval list \<Rightarrow> string list option" where
  "strings_of [] = Some []"
| "strings_of (PStr s # vs) = (case strings_of vs of None \<Rightarrow> None | Some ss \<Rightarrow> Some (s # ss))"
| "strings_of (v # vs) = None"

definition py_join :: "string \<Rightarrow> pyval list \<Rightarrow> error + string" where
  "py_join sep vs = (case strings_of vs of None \<Rightarrow> Inl TypeError | Some ss \<Rightarrow> Inr (join_with sep ss))"

text \<open>
  \<open>base64.b64encode(bs).decode()\<close>: the standard alphabet, three bytes to four characters,
  padded with \<open>=\<close>.
\<close>

definition b64_alphabet :: string where
  "b64_alphabet = ''ABCDEFGHIJKLMNOPQRSTUVWXYZabcdefghijklmnopqrstuvwxyz0123456789+/''"

definition b64_char :: "nat \<Rightarrow> char" where
  "b64_char n = b64_alphabet ! (n mod 64)"

fun b64encode :: "8 word list \<Rightarrow> string" where
  "b64encode [] = []"
| "b64encode [a] =
     (let x = unat a in
      [b64_char (x div 4), b64_char ((x mod 4) * 16), CHR ''='', CHR ''=''])"
| "b64encode [a, b] =
     (let x = unat a; y = unat b in
      [b64_char (x div 4), b64_char ((x mod 4) * 16 + y div 16),
       b64_char ((y mod 16) * 4), CHR ''=''])"
| "b64encode (a # b # c # rest) =
     (let x = unat a; y = unat b; z = unat c in
      [b64_char (x div 4), b64_char ((x mod 4) * 16 + y div 16),
       b64_char ((y mod 16) * 4 + z div 64), b64_char (z mod 64)] @ b64encode rest)"

text \<open>
  \<open>hmac.compare_digest(a, b)\<close> on two strings compares them, and raises \<open>TypeError\<close> when
  one of them has a character outside ASCII; it raises \<open>TypeError\<close> as well when an
  argument is neither a string nor bytes.
\<close>

definition is_ascii :: "char \<Rightarrow> bool" where
  "is_ascii c = (of_char c < (128 :: nat))"

fun compare_digest :: "pyval \<Rightarrow> pyval \<Rightarrow> error + bool" where
  "compare_digest (PStr a) (PStr b) =
     (if list_all is_ascii a \<and> list_all is_ascii b then Inr (a = b) else Inl TypeError)"
| "compare_digest _ _ = Inl TypeError"

text \<open>
  \<open>MaibSdk.validate_callback_signature\<close> (\<open>maib_sdk.py\<close>). The parameter \<open>sha256\<close> stands for
  \<open>hashlib.sha256(s.encode()).digest()\<close>, the digest of the UTF-8 bytes of a string. The
  test \<open>not callback_signature or not callback_result\<close> is written as the two tests that
  the short-circuit \<open>or\<close> makes, in their order.
\<close>

definition MaibSdk_validate_callback_signature ::
  "(pyval \<Rightarrow> string) \<Rightarrow> (string \<Rightarrow> 8 word list) \<Rightarrow> pydict \<Rightarrow> pyval \<Rightarrow> error + bool" where
  "MaibSdk_validate_callback_signature repr sha256 callback_data signature_key =
     (if \<not> truthy signature_key then Inl (MaibPaymentException InvalidSignatureKey)
      else
        let callback_signature = dict_get callback_data ''signature'';
            callback_result = dict_get callback_data ''result''
        in
        if \<not> truthy callback_signature then Inl (MaibPaymentException MissingSignatureData)
        else if \<not> truthy callback_result then Inl (MaibPaymentException MissingSignatureData)
        else
          (case py_items callback_result of
             Inl e \<Rightarrow> Inl e
           | Inr items \<Rightarrow>
               let sorted_callback_result =
                     dict_of_pairs
                       (map (\<lambda>(key, value).
                               (key, PStr (if value \<noteq> PNone then py_str repr value else '''')))
                            (sorted_items items));
                   sorted_callback_values = dict_values sorted_callback_result @ [signature_key]
               in
               (case py_join '':'' sorted_callback_values of
                  Inl e \<Rightarrow> Inl e
                | Inr sign_string \<Rightarrow>
                    let calculated_signature = b64encode (sha256 sign_string)
                    in compare_digest (PStr calculated_signature) callback_signature)))"

text \<open>
  \<open>MAIBSDK.validate_callback_signature\<close> (\<open>maibsdk.py\<close>): no test of the key, the result
  read by subscript (\<open>KeyError\<close> when absent), \<open>str\<close> applied to every value, and the
  comparison by \<open>==\<close>, which is false between a string and anything that is not one.
\<close>

definition MAIBSDK_validate_callback_signature ::
  "(pyval \<Rightarrow> string) \<Rightarrow> (string \<Rightarrow> 8 word list) \<Rightarrow> pydict \<Rightarrow> pyval \<Rightarrow> error + bool" where
  "MAIBSDK_validate_callback_signature repr sha256 callback_data signature_key =
     (let callback_signature = dict_get callback_data ''signature'' in
      if \<not> truthy callback_signature then Inl (MAIBPaymentException MissingCallbackSignature)
      else
        (case map_of callback_data ''result'' of
           None \<Rightarrow> Inl KeyError
         | Some callback_result \<Rightarrow>
             (case py_items callback_result of
                Inl e \<Rightarrow> Inl e
              | Inr items \<Rightarrow>
                  let sorted_callback_result =
                        dict_of_pairs
                          (map (\<lambda>(key, value). (key, PStr (py_str repr value)))
                               (sorted_items items));
                      sorted_callback_values = dict_values sorted_callback_result @ [signature_key]
                  in
                  (case py_join '':'' sorted_callback_values of
                     Inl e \<Rightarrow> Inl e
                   | Inr sign_string \<Rightarrow>
                       let calculated_signature = b64encode (sha256 sign_string)
                       in Inr (PStr calculated_signature = callback_signature)))))"

subsection \<open>The signature as the specification words it\<close>

text \<open>
  The entries of the result sorted by key, every value turned into its string form with
  the empty string for null, the secret added as the last element, the elements joined
  by a colon; the signature is the base64 text of the SHA-256 digest of that string.
\<close>

definition canonical_string :: "(pyval \<Rightarrow> string) \<Rightarrow> pydict \<Rightarrow> string \<Rightarrow> string" where
  "canonical_string repr result secret =
     join_with '':''
       (map (\<lambda>(key, value). if value = PNone then '''' else py_str repr value)
            (sort_key fst result)
        @ [secret])"

definition expected_signature ::
  "(pyval \<Rightarrow> string) \<Rightarrow> (string \<Rightarrow> 8 word list) \<Rightarrow> pydict \<Rightarrow> string \<Rightarrow> string" where
  "expected_signature repr sha256 result secret =
     b64encode (sha256 (canonical_string repr result secret))"

section \<open>Properties\<close>

subsection \<open>Entity identifiers\<close>

lemma py_len_truthy: "truthy v \<Longrightarrow> py_len v = Inr n \<Longrightarrow> 0 < n"
  by (cases v) auto

text \<open>
  Claim C9. In \<open>validate_id_param\<close> of both variants the second error (the message about a
  string of 36 characters) is never raised, whatever the entity id: a missing or empty id
  raises the missing-id error, and a string of any non-zero length is accepted, so no
  length rule is enforced on entity ids.
\<close>

theorem validate_id_param_length_rule_unreachable:
  "MaibApi_validate_id_param entity_id \<noteq> Inl (MaibPaymentException InvalidId)
   \<and> MAIBAPI_validate_id_param entity_id \<noteq> Inl (MAIBPaymentException InvalidId)
   \<and> MaibApi_validate_id_param PNone = Inl (MaibPaymentException MissingId)
   \<and> MAIBAPI_validate_id_param PNone = Inl (MAIBPaymentException MissingId)
   \<and> MaibApi_validate_id_param (PStr s) =
         (if s = [] then Inl (MaibPaymentException MissingId) else Inr ())
   \<and> MAIBAPI_validate_id_param (PStr s) =
         (if s = [] then Inl (MAIBPaymentException MissingId) else Inr ())"
proof -
  have a: "MaibApi_validate_id_param entity_id \<noteq> Inl (MaibPaymentException InvalidId)"
    by (cases entity_id) (auto simp: MaibApi_validate_id_param_def)
  have b: "MAIBAPI_validate_id_param entity_id \<noteq> Inl (MAIBPaymentException InvalidId)"
    by (cases entity_id) (auto simp: MAIBAPI_validate_id_param_def)
  show ?thesis
    using a b by (simp add: MaibApi_validate_id_param_def MAIBAPI_validate_id_param_def)
qed

theorem validate_id_param_length_rule_unreachable_witness:
  "MaibApi_validate_id_param (PStr (replicate 37 (CHR ''x''))) = Inr ()
   \<and> MAIBAPI_validate_id_param (PStr ''1'') = Inr ()
   \<and> MaibApi_validate_id_param (PStr '''') = Inl (MaibPaymentException MissingId)"
  using validate_id_param_length_rule_unreachable [of PNone "replicate 37 (CHR ''x'')"]
    validate_id_param_length_rule_unreachable [of PNone "''1''"]
    validate_id_param_length_rule_unreachable [of PNone "''''"]
  by simp

subsection \<open>Token generation\<close>

lemma py_get_Inl: "py_get v k = Inl e \<Longrightarrow> e = AttributeError"
  by (cases v) auto

lemma py_item0_Inl: "py_item0 v = Inl e \<Longrightarrow> e = IndexError \<or> e = KeyError \<or> e = TypeError"
  by (cases v rule: py_item0.cases) auto

lemma MAIBSDK_handle_response_not_token:
  "MAIBSDK_handle_response response endpoint \<noteq> Inl (MAIBTokenException f)"
  by (auto simp: MAIBSDK_handle_response_def split: sum.splits if_splits
        dest!: py_get_Inl py_item0_Inl)

text \<open>
  Claim C10. \<open>generate_token\<close> raises its credentials error exactly when the project id and
  the project secret are both \<open>None\<close>. With a secret alone nothing is raised before the
  request, which goes out with an empty body; with a project id alone the id is sent as
  the refresh token.
\<close>

theorem generate_token_precondition:
  "(MAIBAuth_generate_token send_request project_id project_secret
      = Inl (MAIBTokenException TokenCredentialsRequired)
    \<longleftrightarrow> project_id = PNone \<and> project_secret = PNone)
   \<and> (project_secret \<noteq> PNone \<longrightarrow>
        token_post_data PNone project_secret = [] \<and>
        MAIBAuth_generate_token send_request PNone project_secret =
          (case send_request ''POST'' ''generate-token'' [] of
             Inl ex \<Rightarrow> Inl (MAIBTokenException TokenHttpError)
           | Inr response \<Rightarrow> MAIBSDK_handle_response response ''generate-token''))
   \<and> (project_id \<noteq> PNone \<longrightarrow>
        token_post_data project_id PNone = [(''refreshToken'', project_id)] \<and>
        MAIBAuth_generate_token send_request project_id PNone =
          (case send_request ''POST'' ''generate-token'' [(''refreshToken'', project_id)] of
             Inl ex \<Rightarrow> Inl (MAIBTokenException TokenHttpError)
           | Inr response \<Rightarrow> MAIBSDK_handle_response response ''generate-token''))"
  by (auto simp: MAIBAuth_generate_token_def token_post_data_def GET_TOKEN_def
        MAIBSDK_handle_response_not_token split: sum.splits)

theorem generate_token_precondition_witness:
  "MAIBAuth_generate_token
      (\<lambda>method url data. Inr (PDict [(''ok'', PBool True), (''result'', PDict data)]))
      PNone (PStr ''secret'') = Inr (PDict [])
   \<and> MAIBAuth_generate_token
      (\<lambda>method url data. Inr (PDict [(''ok'', PBool True), (''result'', PDict data)]))
      (PStr ''project'') PNone = Inr (PDict [(''refreshToken'', PStr ''project'')])
   \<and> MAIBAuth_generate_token
      (\<lambda>method url data. Inr (PDict [(''ok'', PBool True), (''result'', PDict data)]))
      PNone PNone = Inl (MAIBTokenException TokenCredentialsRequired)"
  using generate_token_precondition
    [of "\<lambda>method url data. Inr (PDict [(''ok'', PBool True), (''result'', PDict data)])"
        PNone "PStr ''secret''"]
    generate_token_precondition
    [of "\<lambda>method url data. Inr (PDict [(''ok'', PBool True), (''result'', PDict data)])"
        "PStr ''project''" PNone]
    generate_token_precondition
    [of "\<lambda>method url data. Inr (PDict [(''ok'', PBool True), (''result'', PDict data)])"
        PNone PNone]
  by (simp add: MAIBSDK_handle_response_def dict_get_def)

subsection \<open>Response envelopes\<close>

lemma handle_response_ok_result:
  "dict_get r ''ok'' = PBool True \<Longrightarrow> dict_get r ''result'' \<noteq> PNone \<Longrightarrow>
   MaibSdk_handle_response (PDict r) endpoint = Inr (dict_get r ''result'')"
  by (simp add: MaibSdk_handle_response_def)

lemma handle_response_missing_result:
  "dict_get r ''ok'' = PBool True \<Longrightarrow> dict_get r ''result'' = PNone \<Longrightarrow>
   MaibSdk_handle_response (PDict r) endpoint = Inl (MaibPaymentException (MissingResult endpoint))"
  by (simp add: MaibSdk_handle_response_def)

lemma handle_response_first_error:
  "dict_get r ''ok'' \<noteq> PBool True \<Longrightarrow> dict_get r ''errors'' = PList (PDict e # rest) \<Longrightarrow>
   MaibSdk_handle_response (PDict r) endpoint =
     Inl (MaibPaymentException
           (GatewayError endpoint (dict_get e ''errorMessage'') (dict_get e ''errorCode'')))"
  by (simp add: MaibSdk_handle_response_def)

lemma handle_response_malformed:
  "dict_get r ''ok'' \<noteq> PBool True \<Longrightarrow> dict_get r ''errors'' = PNone \<Longrightarrow>
   MaibSdk_handle_response (PDict r) endpoint =
     Inl (MaibPaymentException (MalformedEnvelope endpoint))"
  by (simp add: MaibSdk_handle_response_def)

text \<open>
  Claim C7. The four lemmas above are the four outcomes of \<open>handle_response\<close> on an envelope
  whose \<open>errors\<close>, when present, is a non-empty list of objects. On an envelope whose
  \<open>errors\<close> is present and empty the indexing \<open>errors[0]\<close> raises \<open>IndexError\<close>, and no
  gateway error is built.
\<close>

theorem handle_response_empty_errors:
  "MaibSdk_handle_response (PDict [(''ok'', PBool False), (''errors'', PList [])]) ''pay''
     = Inl IndexError"
  by (simp add: MaibSdk_handle_response_def dict_get_def)

subsection \<open>Request validation: order of the checks\<close>

lemma andthen_simps [simp]:
  "andthen (Inr u) b = b"
  "andthen (Inl e) b = Inl e"
  by (simp_all add: andthen_def)

lemma andthen_eq_Inr: "andthen a b = Inr x \<longleftrightarrow> a = Inr () \<and> b = Inr x"
  by (cases a) auto

lemma andthen_Inl_left: "a = Inl e \<Longrightarrow> andthen a b = Inl e"
  by simp

lemma check_required_find:
  "check_required data required_params =
     (case find (\<lambda>param. dict_get data param = PNone) required_params of
        Some param \<Rightarrow> Inl (MaibPaymentException (MissingParameter param))
      | None \<Rightarrow> Inr ())"
  by (induction required_params) auto

lemmas rule_defs = apply_rule_def constraint_def string_of_length_def string_among_def
  number_not_below_def items_rule_def dict_get_def Let_def

lemma check_biller_id_rule:
  "check_biller_id data = apply_rule data (constraint ''billerId'' (string_of_length (\<lambda>n. n = 36)))"
  by (simp add: check_biller_id_def rule_defs split: option.splits pyval.splits)

lemma check_biller_expiry_rule:
  "check_biller_expiry data = apply_rule data (constraint ''billerExpiry'' (string_of_length (\<lambda>n. n = 4)))"
  by (simp add: check_biller_expiry_def rule_defs split: option.splits pyval.splits)

lemma check_pay_id_rule:
  "check_pay_id data = apply_rule data (constraint ''payId'' (string_of_length (\<lambda>n. n \<le> 36)))"
  by (auto simp add: check_pay_id_def rule_defs split: option.splits pyval.splits)

lemma check_confirm_amount_rule:
  "check_confirm_amount data = apply_rule data (constraint ''confirmAmount'' (number_not_below float_0_01))"
  by (simp add: check_confirm_amount_def rule_defs split: option.splits)

lemma check_amount_rule:
  "check_amount data = apply_rule data (constraint ''amount'' (number_not_below 1))"
  by (simp add: check_amount_def rule_defs split: option.splits)

lemma check_refund_amount_rule:
  "check_refund_amount data = apply_rule data (constraint ''refundAmount'' (number_not_below float_0_01))"
  by (simp add: check_refund_amount_def rule_defs split: option.splits)

lemma check_currency_rule:
  "check_currency data = apply_rule data (constraint ''currency'' (string_among [''MDL'', ''EUR'', ''USD'']))"
  by (simp add: check_currency_def rule_defs split: option.splits pyval.splits)

lemma check_client_ip_rule:
  "check_client_ip data = apply_rule data (constraint ''clientIp'' (string_of_length (\<lambda>n. True)))"
  by (simp add: check_client_ip_def rule_defs split: option.splits pyval.splits)

lemma check_language_rule:
  "check_language data = apply_rule data (constraint ''language'' (string_of_length (\<lambda>n. n = 2)))"
  by (simp add: check_language_def rule_defs split: option.splits pyval.splits)

lemma check_description_rule:
  "check_description data = apply_rule data (constraint ''description'' (string_of_length (\<lambda>n. n \<le> 124)))"
  by (auto simp add: check_description_def rule_defs split: option.splits pyval.splits)

lemma check_client_name_rule:
  "check_client_name data = apply_rule data (constraint ''clientName'' (string_of_length (\<lambda>n. n \<le> 128)))"
  by (auto simp add: check_client_name_def rule_defs split: option.splits pyval.splits)

lemma check_email_rule:
  "check_email data = apply_rule data (constraint ''email'' (string_of_length (\<lambda>n. True)))"
  by (simp add: check_email_def rule_defs split: option.splits pyval.splits)

lemma check_phone_rule:
  "check_phone data = apply_rule data (constraint ''phone'' (string_of_length (\<lambda>n. n \<le> 40)))"
  by (auto simp add: check_phone_def rule_defs split: option.splits pyval.splits)

lemma check_order_id_rule:
  "check_order_id data = apply_rule data (constraint ''orderId'' (string_of_length (\<lambda>n. n \<le> 36)))"
  by (auto simp add: check_order_id_def rule_defs split: option.splits pyval.splits)

lemma check_delivery_rule:
  "check_delivery data = apply_rule data (constraint ''delivery'' (number_not_below 0))"
  by (simp add: check_delivery_def rule_defs split: option.splits)

lemma check_items_rule:
  "check_items data = apply_rule data (''items'', items_rule)"
  by (simp add: check_items_def rule_defs split: option.splits pyval.splits)

lemma check_callback_url_rule:
  "check_callback_url data = apply_rule data (constraint ''callbackUrl'' (string_of_length (\<lambda>n. True)))"
  by (simp add: check_callback_url_def rule_defs split: option.splits pyval.splits)

lemma check_ok_url_rule:
  "check_ok_url data = apply_rule data (constraint ''okUrl'' (string_of_length (\<lambda>n. True)))"
  by (simp add: check_ok_url_def rule_defs split: option.splits pyval.splits)

lemma check_fail_url_rule:
  "check_fail_url data = apply_rule data (constraint ''failUrl'' (string_of_length (\<lambda>n. True)))"
  by (simp add: check_fail_url_def rule_defs split: option.splits pyval.splits)

lemmas check_rules = check_biller_id_rule check_biller_expiry_rule check_pay_id_rule
  check_confirm_amount_rule check_amount_rule check_refund_amount_rule check_currency_rule
  check_client_ip_rule check_language_rule check_description_rule check_client_name_rule
  check_email_rule check_phone_rule check_order_id_rule check_delivery_rule check_items_rule
  check_callback_url_rule check_ok_url_rule check_fail_url_rule

lemma andthen_first_failure:
  "andthen (first_failure cs) (Inr True) = (case first_failure cs of Inl e \<Rightarrow> Inl e | Inr _ \<Rightarrow> Inr True)"
  by (simp add: andthen_def)

lemma andthen_assoc: "andthen (andthen a b) c = andthen a (andthen b c)"
  by (cases a) auto

lemma validate_pay_params_checks:
  "MaibApi_validate_pay_params data required_params =
     andthen (check_required data required_params)
       (andthen (first_failure (map (\<lambda>(name, check). check data) pay_checks)) (Inr True))"
  by (simp add: MaibApi_validate_pay_params_def pay_checks_def andthen_assoc)

lemma pay_checks_rules:
  "map (\<lambda>(name, check). check data) pay_checks = map (apply_rule data) field_rules"
  by (simp add: pay_checks_def field_rules_def check_rules)

text \<open>
  Claim C4. The validation reports the first violated constraint and nothing else: the
  first required field that is absent or null, in the order of the required list, and
  otherwise the first violated rule in the order billerId, billerExpiry, payId,
  confirmAmount, amount, refundAmount, currency, clientIp, language, description,
  clientName, email, phone, orderId, delivery, items, callbackUrl, okUrl, failUrl, a rule
  being applied only to a field that is present.
\<close>

theorem validate_pay_params_first_violation:
  "MaibApi_validate_pay_params data required_params = first_violation data required_params
   \<and> map fst field_rules =
       [''billerId'', ''billerExpiry'', ''payId'', ''confirmAmount'', ''amount'',
        ''refundAmount'', ''currency'', ''clientIp'', ''language'', ''description'',
        ''clientName'', ''email'', ''phone'', ''orderId'', ''delivery'', ''items'',
        ''callbackUrl'', ''okUrl'', ''failUrl'']"
proof -
  have "MaibApi_validate_pay_params data required_params = first_violation data required_params"
    unfolding validate_pay_params_checks pay_checks_rules first_violation_def
      check_required_find andthen_first_failure
    by (simp split: option.splits)
  moreover have "map fst field_rules =
       [''billerId'', ''billerExpiry'', ''payId'', ''confirmAmount'', ''amount'',
        ''refundAmount'', ''currency'', ''clientIp'', ''language'', ''description'',
        ''clientName'', ''email'', ''phone'', ''orderId'', ''delivery'', ''items'',
        ''callbackUrl'', ''okUrl'', ''failUrl'']"
    by (simp add: field_rules_def constraint_def)
  ultimately show ?thesis by simp
qed

theorem validate_pay_params_first_violation_witness:
  "MaibApi_validate_pay_params
      [(''currency'', PStr ''XXX''), (''amount'', PInt 0), (''billerId'', PStr ''b'')]
      REQUIRED_EXECUTE_ONECLICK_PARAMS
     = Inl (MaibPaymentException (MissingParameter ''clientIp''))
   \<and> MaibApi_validate_pay_params
      [(''currency'', PStr ''XXX''), (''amount'', PInt 0), (''clientIp'', PStr ''127.0.0.1'')]
      REQUIRED_PAY_PARAMS
     = Inl (MaibPaymentException (InvalidParameter ''amount''))
   \<and> MaibApi_validate_pay_params [(''failUrl'', PInt 1), (''language'', PStr ''eng'')] []
     = Inl (MaibPaymentException (InvalidParameter ''language''))
   \<and> MaibApi_validate_pay_params [] REQUIRED_PAY_PARAMS
     = Inl (MaibPaymentException (MissingParameter ''amount''))"
  using validate_pay_params_first_violation
      [of "[(''currency'', PStr ''XXX''), (''amount'', PInt 0), (''billerId'', PStr ''b'')]"
          REQUIRED_EXECUTE_ONECLICK_PARAMS]
    validate_pay_params_first_violation
      [of "[(''currency'', PStr ''XXX''), (''amount'', PInt 0), (''clientIp'', PStr ''127.0.0.1'')]"
          REQUIRED_PAY_PARAMS]
    validate_pay_params_first_violation
      [of "[(''failUrl'', PInt 1), (''language'', PStr ''eng'')]" "[]"]
    validate_pay_params_first_violation [of "[]" REQUIRED_PAY_PARAMS]
  by (simp add: first_violation_def field_rules_def rule_defs REQUIRED_PAY_PARAMS_def
      REQUIRED_EXECUTE_ONECLICK_PARAMS_def)

subsection \<open>Request validation: the error that is reported\<close>

lemma first_failure_append:
  "first_failure (xs @ ys) = andthen (first_failure xs) (first_failure ys)"
  by (induction xs) (simp_all add: andthen_assoc)

lemma first_failure_member: "Inl e \<in> set cs \<Longrightarrow> isl (first_failure cs)"
  by (induction cs) (auto simp: andthen_def split: sum.splits)

lemma first_failure_Inl: "first_failure cs = Inl e \<Longrightarrow> Inl e \<in> set cs"
  by (induction cs) (auto simp: andthen_def split: sum.splits)

lemma isl_andthen_left: "isl a \<Longrightarrow> isl (andthen a b)"
  by (cases a) auto

lemma isl_andthen: "isl b \<Longrightarrow> isl (andthen a b)"
  by (cases a) auto

lemma validate_pay_params_fails:
  assumes "(field, check) \<in> set pay_checks" and "check data = Inl e"
  shows "isl (MaibApi_validate_pay_params data required_params)"
proof -
  have "Inl e \<in> set (map (\<lambda>(name, check). check data) pay_checks)"
    using assms by force
  then have "isl (first_failure (map (\<lambda>(name, check). check data) pay_checks))"
    by (rule first_failure_member)
  then have "isl (andthen (first_failure (map (\<lambda>(name, check). check data) pay_checks)) (Inr True))"
    by (rule isl_andthen_left)
  then show ?thesis
    unfolding validate_pay_params_checks by (rule isl_andthen)
qed

lemma validate_pay_params_reports:
  assumes before: "checks_before field data required_params = Inr ()"
    and here: "dropWhile (\<lambda>(name, check). name \<noteq> field) pay_checks = (field, check) # rest"
    and fails: "check data = Inl e"
  shows "MaibApi_validate_pay_params data required_params = Inl e"
proof -
  let ?P = "\<lambda>(name, check). name \<noteq> field"
  let ?run = "\<lambda>cs. first_failure (map (\<lambda>(name, check). check data) cs)"
  have split: "pay_checks = takeWhile ?P pay_checks @ (field, check) # rest"
    using here takeWhile_dropWhile_id [of ?P pay_checks] by simp
  from before have req: "check_required data required_params = Inr ()"
    and pre: "?run (takeWhile ?P pay_checks) = Inr ()"
    by (simp_all add: checks_before_def andthen_eq_Inr)
  have "?run pay_checks = andthen (?run (takeWhile ?P pay_checks)) (?run ((field, check) # rest))"
    by (subst split) (simp only: map_append first_failure_append)
  also have "\<dots> = Inl e"
    using pre fails by simp
  finally show ?thesis
    by (simp add: validate_pay_params_checks req)
qed

lemma check_each_item_not_missing:
  "check_each_item xs \<noteq> Inl (MaibPaymentException (MissingParameter p))"
proof (induction xs)
  case Nil
  show ?case by simp
next
  case (Cons x xs)
  have "check_item x \<noteq> Inl (MaibPaymentException (MissingParameter p))"
    by (cases x)
      (auto simp: andthen_def check_item_id_def check_item_name_def check_item_price_def
        check_item_quantity_def Let_def split: sum.splits if_splits)
  with Cons show ?case
    by (auto simp: andthen_def split: sum.splits)
qed

lemma apply_rule_not_missing:
  "fr \<in> set field_rules \<Longrightarrow> apply_rule data fr \<noteq> Inl (MaibPaymentException (MissingParameter p))"
  by (auto simp: field_rules_def apply_rule_def constraint_def items_rule_def
      check_each_item_not_missing split: option.splits pyval.splits if_splits)

lemma check_required_missing:
  "check_required data required_params = Inl (MaibPaymentException (MissingParameter p))
   \<Longrightarrow> dict_get data p = PNone"
  by (induction required_params) (auto split: if_splits)

lemma validate_pay_params_missing:
  assumes "MaibApi_validate_pay_params data required_params
             = Inl (MaibPaymentException (MissingParameter p))"
  shows "dict_get data p = PNone"
proof (cases "check_required data required_params")
  case (Inl e)
  with assms show ?thesis
    by (auto simp: validate_pay_params_checks dest: check_required_missing)
next
  case (Inr u)
  with assms have "first_failure (map (apply_rule data) field_rules)
      = Inl (MaibPaymentException (MissingParameter p))"
    by (auto simp: validate_pay_params_checks pay_checks_rules andthen_def split: sum.splits)
  then have "Inl (MaibPaymentException (MissingParameter p)) \<in> set (map (apply_rule data) field_rules)"
    by (rule first_failure_Inl)
  then obtain fr where "fr \<in> set field_rules"
    and "apply_rule data fr = Inl (MaibPaymentException (MissingParameter p))"
    by auto
  then show ?thesis
    using apply_rule_not_missing by blast
qed

subsection \<open>String fields\<close>

text \<open>
  Claim C5, as stated, fails: a pay request whose clientIp, email, callbackUrl, okUrl and
  failUrl are all the empty string passes the validation.
\<close>

theorem empty_strings_accepted:
  "MaibApi_validate_pay_params
      [(''amount'', PInt 10), (''currency'', PStr ''MDL''), (''clientIp'', PStr ''''),
       (''email'', PStr ''''), (''callbackUrl'', PStr ''''), (''okUrl'', PStr ''''),
       (''failUrl'', PStr '''')]
      REQUIRED_PAY_PARAMS = Inr True"
  by (simp add: validate_pay_params_checks pay_checks_rules check_required_find
      field_rules_def rule_defs REQUIRED_PAY_PARAMS_def)

lemma type_check_only:
  assumes c: "check data =
      (case dict_get data field of
         PNone \<Rightarrow> Inr ()
       | PStr s \<Rightarrow> Inr ()
       | _ \<Rightarrow> Inl (MaibPaymentException (InvalidParameter field)))"
    and pos: "dropWhile (\<lambda>(name, check). name \<noteq> field) pay_checks = (field, check) # rest"
  shows "(dict_get data field = PNone \<longrightarrow> check data = Inr ())
     \<and> (\<forall>s. dict_get data field = PStr s \<longrightarrow> check data = Inr ())
     \<and> (dict_get data field \<noteq> PNone \<and> (\<forall>s. dict_get data field \<noteq> PStr s) \<longrightarrow>
          check data = Inl (MaibPaymentException (InvalidParameter field))
          \<and> isl (MaibApi_validate_pay_params data required_params)
          \<and> (checks_before field data required_params = Inr () \<longrightarrow>
               MaibApi_validate_pay_params data required_params
                 = Inl (MaibPaymentException (InvalidParameter field))))"
proof -
  have mem: "(field, check) \<in> set pay_checks"
    using set_dropWhileD [of "(field, check)" "\<lambda>(name, check). name \<noteq> field" pay_checks] pos
    by simp
  have "check data = Inr ()" if "dict_get data field = PNone"
    using c that by simp
  moreover have "check data = Inr ()" if "dict_get data field = PStr s" for s
    using c that by simp
  moreover have "check data = Inl (MaibPaymentException (InvalidParameter field))"
    if "dict_get data field \<noteq> PNone" "\<forall>s. dict_get data field \<noteq> PStr s"
    using c that by (cases "dict_get data field") simp_all
  ultimately show ?thesis
    using validate_pay_params_fails [OF mem] validate_pay_params_reports [OF _ pos]
    by blast
qed

lemma check_client_ip_position:
  "\<exists>rest. dropWhile (\<lambda>(name, check). name \<noteq> ''clientIp'') pay_checks = (''clientIp'', check_client_ip) # rest"
  by (simp add: pay_checks_def)

lemma check_client_ip_cases:
  "check_client_ip data =
     (case dict_get data ''clientIp'' of
        PNone \<Rightarrow> Inr ()
      | PStr s \<Rightarrow> Inr ()
      | _ \<Rightarrow> Inl (MaibPaymentException (InvalidParameter ''clientIp'')))"
  by (simp add: check_client_ip_def Let_def split: pyval.splits)

lemma check_email_position:
  "\<exists>rest. dropWhile (\<lambda>(name, check). name \<noteq> ''email'') pay_checks = (''email'', check_email) # rest"
  by (simp add: pay_checks_def)

lemma check_email_cases:
  "check_email data =
     (case dict_get data ''email'' of
        PNone \<Rightarrow> Inr ()
      | PStr s \<Rightarrow> Inr ()
      | _ \<Rightarrow> Inl (MaibPaymentException (InvalidParameter ''email'')))"
  by (simp add: check_email_def Let_def split: pyval.splits)

lemma check_callback_url_position:
  "\<exists>rest. dropWhile (\<lambda>(name, check). name \<noteq> ''callbackUrl'') pay_checks = (''callbackUrl'', check_callback_url) # rest"
  by (simp add: pay_checks_def)

lemma check_callback_url_cases:
  "check_callback_url data =
     (case dict_get data ''callbackUrl'' of
        PNone \<Rightarrow> Inr ()
      | PStr s \<Rightarrow> Inr ()
      | _ \<Rightarrow> Inl (MaibPaymentException (InvalidParameter ''callbackUrl'')))"
  by (simp add: check_callback_url_def Let_def split: pyval.splits)

lemma check_ok_url_position:
  "\<exists>rest. dropWhile (\<lambda>(name, check). name \<noteq> ''okUrl'') pay_checks = (''okUrl'', check_ok_url) # rest"
  by (simp add: pay_checks_def)

lemma check_ok_url_cases:
  "check_ok_url data =
     (case dict_get data ''okUrl'' of
        PNone \<Rightarrow> Inr ()
      | PStr s \<Rightarrow> Inr ()
      | _ \<Rightarrow> Inl (MaibPaymentException (InvalidParameter ''okUrl'')))"
  by (simp add: check_ok_url_def Let_def split: pyval.splits)

lemma check_fail_url_position:
  "\<exists>rest. dropWhile (\<lambda>(name, check). name \<noteq> ''failUrl'') pay_checks = (''failUrl'', check_fail_url) # rest"
  by (simp add: pay_checks_def)

lemma check_fail_url_cases:
  "check_fail_url data =
     (case dict_get data ''failUrl'' of
        PNone \<Rightarrow> Inr ()
      | PStr s \<Rightarrow> Inr ()
      | _ \<Rightarrow> Inl (MaibPaymentException (InvalidParameter ''failUrl'')))"
  by (simp add: check_fail_url_def Let_def split: pyval.splits)

text \<open>
  Claim C5, amended. For each of clientIp, email, callbackUrl, okUrl and failUrl the block
  accepts an absent or null field and every string, the empty one included; a value that
  is neither null nor a string fails the validation, with \<open>InvalidParameter\<close> naming the
  field when nothing before its block fails.
\<close>

theorem string_fields_only_type_checked:
  assumes "(field, check) \<in> set string_fields"
  shows "(dict_get data field = PNone \<longrightarrow> check data = Inr ())
     \<and> (\<forall>s. dict_get data field = PStr s \<longrightarrow> check data = Inr ())
     \<and> (dict_get data field \<noteq> PNone \<and> (\<forall>s. dict_get data field \<noteq> PStr s) \<longrightarrow>
          check data = Inl (MaibPaymentException (InvalidParameter field))
          \<and> isl (MaibApi_validate_pay_params data required_params)
          \<and> (checks_before field data required_params = Inr () \<longrightarrow>
               MaibApi_validate_pay_params data required_params
                 = Inl (MaibPaymentException (InvalidParameter field))))"
proof -
  from assms have "(field = ''clientIp'' \<and> check = check_client_ip)
      \<or> (field = ''email'' \<and> check = check_email)
      \<or> (field = ''callbackUrl'' \<and> check = check_callback_url)
      \<or> (field = ''okUrl'' \<and> check = check_ok_url)
      \<or> (field = ''failUrl'' \<and> check = check_fail_url)"
    by (simp add: string_fields_def)
  then show ?thesis
  proof (elim disjE conjE)
    assume eqs: "field = ''clientIp''" "check = check_client_ip"
    from check_client_ip_position obtain rest
      where "dropWhile (\<lambda>(name, check). name \<noteq> ''clientIp'') pay_checks = (''clientIp'', check_client_ip) # rest" ..
    then show ?thesis
      unfolding eqs by (rule type_check_only [OF check_client_ip_cases])
  next
    assume eqs: "field = ''email''" "check = check_email"
    from check_email_position obtain rest
      where "dropWhile (\<lambda>(name, check). name \<noteq> ''email'') pay_checks = (''email'', check_email) # rest" ..
    then show ?thesis
      unfolding eqs by (rule type_check_only [OF check_email_cases])
  next
    assume eqs: "field = ''callbackUrl''" "check = check_callback_url"
    from check_callback_url_position obtain rest
      where "dropWhile (\<lambda>(name, check). name \<noteq> ''callbackUrl'') pay_checks = (''callbackUrl'', check_callback_url) # rest" ..
    then show ?thesis
      unfolding eqs by (rule type_check_only [OF check_callback_url_cases])
  next
    assume eqs: "field = ''okUrl''" "check = check_ok_url"
    from check_ok_url_position obtain rest
      where "dropWhile (\<lambda>(name, check). name \<noteq> ''okUrl'') pay_checks = (''okUrl'', check_ok_url) # rest" ..
    then show ?thesis
      unfolding eqs by (rule type_check_only [OF check_ok_url_cases])
  next
    assume eqs: "field = ''failUrl''" "check = check_fail_url"
    from check_fail_url_position obtain rest
      where "dropWhile (\<lambda>(name, check). name \<noteq> ''failUrl'') pay_checks = (''failUrl'', check_fail_url) # rest" ..
    then show ?thesis
      unfolding eqs by (rule type_check_only [OF check_fail_url_cases])
  qed
qed

theorem string_fields_only_type_checked_witness:
  "check_client_ip [(''clientIp'', PStr '''')] = Inr ()
   \<and> check_email [(''email'', PInt 5)] = Inl (MaibPaymentException (InvalidParameter ''email''))
   \<and> MaibApi_validate_pay_params [(''email'', PInt 5)] []
       = Inl (MaibPaymentException (InvalidParameter ''email''))"
proof -
  have m1: "(''clientIp'', check_client_ip) \<in> set string_fields"
    and m2: "(''email'', check_email) \<in> set string_fields"
    by (simp_all add: string_fields_def)
  have g1: "dict_get [(''clientIp'', PStr '''')] ''clientIp'' = PStr ''''"
    and g2: "dict_get [(''email'', PInt 5)] ''email'' = PInt 5"
    by (simp_all add: dict_get_def)
  have b: "checks_before ''email'' [(''email'', PInt 5)] [] = Inr ()"
    by (simp add: checks_before_def pay_checks_def check_rules rule_defs)
  show ?thesis
    using string_fields_only_type_checked [OF m1, of "[(''clientIp'', PStr '''')]" "[]"]
      string_fields_only_type_checked [OF m2, of "[(''email'', PInt 5)]" "[]"] g1 g2 b
    by simp
qed

subsection \<open>Minimum bounds\<close>

lemma minimum_bound:
  assumes c: "check data =
      (if dict_get data field \<noteq> PNone then
         if (case py_number (dict_get data field) of None \<Rightarrow> True | Some x \<Rightarrow> float_lt x bound)
         then Inl (MaibPaymentException (InvalidParameter field))
         else Inr ()
       else Inr ())"
    and pos: "dropWhile (\<lambda>(name, check). name \<noteq> field) pay_checks = (field, check) # rest"
    and num: "py_number (dict_get data field) = Some x"
  shows "(float_lt x bound \<longrightarrow>
            check data = Inl (MaibPaymentException (InvalidParameter field))
            \<and> isl (MaibApi_validate_pay_params data required_params)
            \<and> (checks_before field data required_params = Inr () \<longrightarrow>
                 MaibApi_validate_pay_params data required_params
                   = Inl (MaibPaymentException (InvalidParameter field))))
     \<and> (x = Finite bound \<longrightarrow> check data = Inr ())
     \<and> (\<not> float_lt x bound \<longrightarrow> check data = Inr ())"
proof -
  have mem: "(field, check) \<in> set pay_checks"
    using set_dropWhileD [of "(field, check)" "\<lambda>(name, check). name \<noteq> field" pay_checks] pos
    by simp
  from num have present: "dict_get data field \<noteq> PNone"
    by auto
  have low: "check data = Inl (MaibPaymentException (InvalidParameter field))" if "float_lt x bound"
    using c num present that by simp
  have high: "check data = Inr ()" if "\<not> float_lt x bound"
    using c num present that by simp
  have "check data = Inr ()" if "x = Finite bound"
    using high that by simp
  with low high show ?thesis
    using validate_pay_params_fails [OF mem] validate_pay_params_reports [OF _ pos]
    by blast
qed

lemma check_confirm_amount_position:
  "\<exists>rest. dropWhile (\<lambda>(name, check). name \<noteq> ''confirmAmount'') pay_checks
      = (''confirmAmount'', check_confirm_amount) # rest"
  by (simp add: pay_checks_def)

lemma check_amount_position:
  "\<exists>rest. dropWhile (\<lambda>(name, check). name \<noteq> ''amount'') pay_checks
      = (''amount'', check_amount) # rest"
  by (simp add: pay_checks_def)

lemma check_refund_amount_position:
  "\<exists>rest. dropWhile (\<lambda>(name, check). name \<noteq> ''refundAmount'') pay_checks
      = (''refundAmount'', check_refund_amount) # rest"
  by (simp add: pay_checks_def)

lemma check_delivery_position:
  "\<exists>rest. dropWhile (\<lambda>(name, check). name \<noteq> ''delivery'') pay_checks
      = (''delivery'', check_delivery) # rest"
  by (simp add: pay_checks_def)

text \<open>
  Claim C6. For confirmAmount and refundAmount (minimum the float 0.01), amount (minimum
  1) and delivery (minimum 0): a present number strictly below the minimum makes the
  block fail with \<open>InvalidParameter\<close> naming the field, and the whole validation fail, that
  error being the one reported when nothing before the block fails; a number equal to the
  minimum, and any number that is not below it, passes the block.
\<close>

theorem minimum_bounds_inclusive:
  assumes "(field, check, bound) \<in> set minimum_bounds"
    and num: "py_number (dict_get data field) = Some x"
  shows "(float_lt x bound \<longrightarrow>
            check data = Inl (MaibPaymentException (InvalidParameter field))
            \<and> isl (MaibApi_validate_pay_params data required_params)
            \<and> (checks_before field data required_params = Inr () \<longrightarrow>
                 MaibApi_validate_pay_params data required_params
                   = Inl (MaibPaymentException (InvalidParameter field))))
     \<and> (x = Finite bound \<longrightarrow> check data = Inr ())
     \<and> (\<not> float_lt x bound \<longrightarrow> check data = Inr ())"
proof -
  from assms(1) have "(field = ''confirmAmount'' \<and> check = check_confirm_amount \<and> bound = float_0_01)
      \<or> (field = ''amount'' \<and> check = check_amount \<and> bound = 1)
      \<or> (field = ''refundAmount'' \<and> check = check_refund_amount \<and> bound = float_0_01)
      \<or> (field = ''delivery'' \<and> check = check_delivery \<and> bound = 0)"
    by (simp add: minimum_bounds_def)
  then show ?thesis
  proof (elim disjE conjE)
    assume eqs: "field = ''confirmAmount''" "check = check_confirm_amount" "bound = float_0_01"
    from check_confirm_amount_position obtain rest
      where pos: "dropWhile (\<lambda>(name, check). name \<noteq> ''confirmAmount'') pay_checks
        = (''confirmAmount'', check_confirm_amount) # rest" ..
    have c: "check_confirm_amount data =
      (if dict_get data ''confirmAmount'' \<noteq> PNone then
         if (case py_number (dict_get data ''confirmAmount'') of None \<Rightarrow> True
             | Some x \<Rightarrow> float_lt x float_0_01)
         then Inl (MaibPaymentException (InvalidParameter ''confirmAmount''))
         else Inr ()
       else Inr ())"
      by (simp add: check_confirm_amount_def Let_def)
    show ?thesis
      using num unfolding eqs by (rule minimum_bound [OF c pos])
  next
    assume eqs: "field = ''amount''" "check = check_amount" "bound = 1"
    from check_amount_position obtain rest
      where pos: "dropWhile (\<lambda>(name, check). name \<noteq> ''amount'') pay_checks
        = (''amount'', check_amount) # rest" ..
    have c: "check_amount data =
      (if dict_get data ''amount'' \<noteq> PNone then
         if (case py_number (dict_get data ''amount'') of None \<Rightarrow> True
             | Some x \<Rightarrow> float_lt x 1)
         then Inl (MaibPaymentException (InvalidParameter ''amount''))
         else Inr ()
       else Inr ())"
      by (simp add: check_amount_def Let_def)
    show ?thesis
      using num unfolding eqs by (rule minimum_bound [OF c pos])
  next
    assume eqs: "field = ''refundAmount''" "check = check_refund_amount" "bound = float_0_01"
    from check_refund_amount_position obtain rest
      where pos: "dropWhile (\<lambda>(name, check). name \<noteq> ''refundAmount'') pay_checks
        = (''refundAmount'', check_refund_amount) # rest" ..
    have c: "check_refund_amount data =
      (if dict_get data ''refundAmount'' \<noteq> PNone then
         if (case py_number (dict_get data ''refundAmount'') of None \<Rightarrow> True
             | Some x \<Rightarrow> float_lt x float_0_01)
         then Inl (MaibPaymentException (InvalidParameter ''refundAmount''))
         else Inr ()
       else Inr ())"
      by (simp add: check_refund_amount_def Let_def)
    show ?thesis
      using num unfolding eqs by (rule minimum_bound [OF c pos])
  next
    assume eqs: "field = ''delivery''" "check = check_delivery" "bound = 0"
    from check_delivery_position obtain rest
      where pos: "dropWhile (\<lambda>(name, check). name \<noteq> ''delivery'') pay_checks
        = (''delivery'', check_delivery) # rest" ..
    have c: "check_delivery data =
      (if dict_get data ''delivery'' \<noteq> PNone then
         if (case py_number (dict_get data ''delivery'') of None \<Rightarrow> True
             | Some x \<Rightarrow> float_lt x 0)
         then Inl (MaibPaymentException (InvalidParameter ''delivery''))
         else Inr ()
       else Inr ())"
      by (simp add: check_delivery_def Let_def)
    show ?thesis
      using num unfolding eqs by (rule minimum_bound [OF c pos])
  qed
qed

theorem minimum_bounds_inclusive_witness:
  "check_amount [(''amount'', PInt 1)] = Inr ()
   \<and> check_amount [(''amount'', PFloat (Finite (8998192055486251 / 2 ^ 53)))]
       = Inl (MaibPaymentException (InvalidParameter ''amount''))
   \<and> MaibApi_validate_pay_params
        [(''amount'', PFloat (Finite (8998192055486251 / 2 ^ 53)))] []
       = Inl (MaibPaymentException (InvalidParameter ''amount''))
   \<and> check_confirm_amount [(''confirmAmount'', PFloat (Finite float_0_01))] = Inr ()
   \<and> check_confirm_amount [(''confirmAmount'', PInt 0)]
       = Inl (MaibPaymentException (InvalidParameter ''confirmAmount''))"
proof -
  have m1: "(''amount'', check_amount, 1) \<in> set minimum_bounds"
    and m2: "(''confirmAmount'', check_confirm_amount, float_0_01) \<in> set minimum_bounds"
    by (simp_all add: minimum_bounds_def)
  have n1: "py_number (dict_get [(''amount'', PInt 1)] ''amount'') = Some (Finite 1)"
    and n2: "py_number (dict_get [(''amount'', PFloat (Finite (8998192055486251 / 2 ^ 53)))] ''amount'')
        = Some (Finite (8998192055486251 / 2 ^ 53))"
    and n3: "py_number (dict_get [(''confirmAmount'', PFloat (Finite float_0_01))] ''confirmAmount'')
        = Some (Finite float_0_01)"
    and n4: "py_number (dict_get [(''confirmAmount'', PInt 0)] ''confirmAmount'') = Some (Finite 0)"
    by (simp_all add: dict_get_def)
  have b: "checks_before ''amount'' [(''amount'', PFloat (Finite (8998192055486251 / 2 ^ 53)))] []
      = Inr ()"
    by (simp add: checks_before_def pay_checks_def check_rules rule_defs)
  have lt: "float_lt (Finite (8998192055486251 / 2 ^ 53)) 1" "float_lt (Finite 0) float_0_01"
    by (simp_all add: float_0_01_def)
  show ?thesis
    using minimum_bounds_inclusive [OF m1 n1] minimum_bounds_inclusive [OF m1 n2, of "[]"]
      minimum_bounds_inclusive [OF m2 n3] minimum_bounds_inclusive [OF m2 n4] b lt
    by simp
qed

subsection \<open>Items\<close>

lemma check_items_position:
  "\<exists>rest. dropWhile (\<lambda>(name, check). name \<noteq> ''items'') pay_checks
      = (''items'', check_items) # rest"
  by (simp add: pay_checks_def)

lemma check_items_list:
  "dict_get data ''items'' = PList xs \<Longrightarrow>
   check_items data =
     (if xs = [] then Inl (MaibPaymentException (InvalidParameter ''items''))
      else check_each_item xs)"
  by (simp add: check_items_def Let_def)

lemma check_each_item_append:
  "check_each_item (pre @ post) = andthen (check_each_item pre) (check_each_item post)"
  by (induction pre) (simp_all add: andthen_assoc)

lemma check_item_long_id:
  "dict_get item ''id'' = PStr s \<Longrightarrow> 36 < length s \<Longrightarrow>
   check_item (PDict item) = Inl (MaibPaymentException (InvalidItemParameter ''id''))"
  by (simp add: check_item_id_def Let_def)

lemma check_item_passes:
  "check_item (PDict item) = Inr () \<longleftrightarrow>
     (dict_get item ''id'' = PNone
        \<or> (\<exists>s. dict_get item ''id'' = PStr s \<and> length s \<le> 36))
   \<and> (dict_get item ''name'' = PNone
        \<or> (\<exists>s. dict_get item ''name'' = PStr s \<and> length s \<le> 128))
   \<and> (dict_get item ''price'' = PNone
        \<or> (\<exists>x. py_number (dict_get item ''price'') = Some x \<and> \<not> float_lt x 0))
   \<and> (dict_get item ''quantity'' = PNone
        \<or> (\<exists>n. py_integer (dict_get item ''quantity'') = Some n \<and> 0 \<le> n))"
proof -
  have a: "check_item_id item = Inr () \<longleftrightarrow>
      (dict_get item ''id'' = PNone \<or> (\<exists>s. dict_get item ''id'' = PStr s \<and> length s \<le> 36))"
    by (cases "dict_get item ''id''") (auto simp: check_item_id_def Let_def split: if_splits)
  have b: "check_item_name item = Inr () \<longleftrightarrow>
      (dict_get item ''name'' = PNone \<or> (\<exists>s. dict_get item ''name'' = PStr s \<and> length s \<le> 128))"
    by (cases "dict_get item ''name''") (auto simp: check_item_name_def Let_def split: if_splits)
  have c: "check_item_price item = Inr () \<longleftrightarrow>
      (dict_get item ''price'' = PNone
        \<or> (\<exists>x. py_number (dict_get item ''price'') = Some x \<and> \<not> float_lt x 0))"
    by (cases "py_number (dict_get item ''price'')") (auto simp: check_item_price_def Let_def split: if_splits)
  have d: "check_item_quantity item = Inr () \<longleftrightarrow>
      (dict_get item ''quantity'' = PNone
        \<or> (\<exists>n. py_integer (dict_get item ''quantity'') = Some n \<and> 0 \<le> n))"
    by (cases "py_integer (dict_get item ''quantity'')") (auto simp: check_item_quantity_def Let_def split: if_splits)
  show ?thesis
    unfolding a [symmetric] b [symmetric] c [symmetric] d [symmetric]
    by (simp add: andthen_eq_Inr)
qed

text \<open>
  Claim C8. With items present and empty the items block fails with
  \<open>InvalidParameter\<close> naming items, the validation fails, never with \<open>MissingParameter\<close>
  naming items, and that error is the one reported when nothing before the block fails.
  With an element whose id is a string of more than 36 characters the block and the
  validation fail, on the id of the element when the elements before it pass and nothing
  before the block fails. An element passes exactly when each of its id, name, price and
  quantity is absent or meets its constraint.
\<close>

theorem items_rule:
  "(dict_get data ''items'' = PList [] \<longrightarrow>
      check_items data = Inl (MaibPaymentException (InvalidParameter ''items''))
      \<and> isl (MaibApi_validate_pay_params data required_params)
      \<and> MaibApi_validate_pay_params data required_params
            \<noteq> Inl (MaibPaymentException (MissingParameter ''items''))
      \<and> (checks_before ''items'' data required_params = Inr () \<longrightarrow>
            MaibApi_validate_pay_params data required_params
              = Inl (MaibPaymentException (InvalidParameter ''items''))))
   \<and> (dict_get data ''items'' = PList (pre @ PDict item # post)
        \<and> dict_get item ''id'' = PStr s \<and> 36 < length s \<longrightarrow>
      isl (check_items data)
      \<and> isl (MaibApi_validate_pay_params data required_params)
      \<and> (check_each_item pre = Inr () \<longrightarrow>
            check_items data = Inl (MaibPaymentException (InvalidItemParameter ''id''))
            \<and> (checks_before ''items'' data required_params = Inr () \<longrightarrow>
                  MaibApi_validate_pay_params data required_params
                    = Inl (MaibPaymentException (InvalidItemParameter ''id'')))))
   \<and> (check_item (PDict item') = Inr () \<longleftrightarrow>
        (dict_get item' ''id'' = PNone
           \<or> (\<exists>s. dict_get item' ''id'' = PStr s \<and> length s \<le> 36))
      \<and> (dict_get item' ''name'' = PNone
           \<or> (\<exists>s. dict_get item' ''name'' = PStr s \<and> length s \<le> 128))
      \<and> (dict_get item' ''price'' = PNone
           \<or> (\<exists>x. py_number (dict_get item' ''price'') = Some x \<and> \<not> float_lt x 0))
      \<and> (dict_get item' ''quantity'' = PNone
           \<or> (\<exists>n. py_integer (dict_get item' ''quantity'') = Some n \<and> 0 \<le> n)))"
proof -
  from check_items_position obtain rest
    where pos: "dropWhile (\<lambda>(name, check). name \<noteq> ''items'') pay_checks
      = (''items'', check_items) # rest" ..
  have mem: "(''items'', check_items) \<in> set pay_checks"
    using set_dropWhileD [of "(''items'', check_items)" "\<lambda>(name, check). name \<noteq> ''items''" pay_checks]
      pos by simp
  note fails = validate_pay_params_fails [OF mem, of data _ required_params]
  note reports = validate_pay_params_reports [OF _ pos, of data required_params]
  have empty: "check_items data = Inl (MaibPaymentException (InvalidParameter ''items''))
      \<and> isl (MaibApi_validate_pay_params data required_params)
      \<and> MaibApi_validate_pay_params data required_params
            \<noteq> Inl (MaibPaymentException (MissingParameter ''items''))
      \<and> (checks_before ''items'' data required_params = Inr () \<longrightarrow>
            MaibApi_validate_pay_params data required_params
              = Inl (MaibPaymentException (InvalidParameter ''items'')))"
    if e: "dict_get data ''items'' = PList []"
  proof -
    have c: "check_items data = Inl (MaibPaymentException (InvalidParameter ''items''))"
      using check_items_list [OF e] by simp
    have "MaibApi_validate_pay_params data required_params
            \<noteq> Inl (MaibPaymentException (MissingParameter ''items''))"
      using validate_pay_params_missing [of data required_params "''items''"] e by auto
    with c fails [OF c] reports [OF _ c] show ?thesis by blast
  qed
  have long: "isl (check_items data)
      \<and> isl (MaibApi_validate_pay_params data required_params)
      \<and> (check_each_item pre = Inr () \<longrightarrow>
            check_items data = Inl (MaibPaymentException (InvalidItemParameter ''id''))
            \<and> (checks_before ''items'' data required_params = Inr () \<longrightarrow>
                  MaibApi_validate_pay_params data required_params
                    = Inl (MaibPaymentException (InvalidItemParameter ''id''))))"
    if l: "dict_get data ''items'' = PList (pre @ PDict item # post)"
      and i: "dict_get item ''id'' = PStr s" and n: "36 < length s"
  proof -
    have c: "check_items data =
        andthen (check_each_item pre) (Inl (MaibPaymentException (InvalidItemParameter ''id'')))"
      using check_items_list [OF l] check_item_long_id [OF i n]
      by (simp add: check_each_item_append)
    then obtain e where e: "check_items data = Inl e"
      by (cases "check_each_item pre") auto
    have "check_items data = Inl (MaibPaymentException (InvalidItemParameter ''id''))"
      if "check_each_item pre = Inr ()"
      using c that by simp
    with e fails [OF e] reports [OF _ e] show ?thesis
      by (metis sum.disc(1) sum.inject(1))
  qed
  from empty long check_item_passes [of item'] show ?thesis
    by blast
qed

theorem items_rule_witness:
  "check_items [(''items'', PList [PDict [(''id'', PStr (replicate 37 (CHR ''x'')))]])]
     = Inl (MaibPaymentException (InvalidItemParameter ''id''))
   \<and> MaibApi_validate_pay_params
        [(''items'', PList [PDict [(''id'', PStr (replicate 37 (CHR ''x'')))]])] []
     = Inl (MaibPaymentException (InvalidItemParameter ''id''))
   \<and> MaibApi_validate_pay_params [(''items'', PList [])] []
     = Inl (MaibPaymentException (InvalidParameter ''items''))
   \<and> check_item (PDict []) = Inr ()"
proof -
  let ?long = "replicate 37 (CHR ''x'')"
  let ?item = "[(''id'', PStr ?long)]"
  let ?data = "[(''items'', PList [PDict ?item])]"
  have g1: "dict_get ?data ''items'' = PList ([] @ PDict ?item # [])"
    and g2: "dict_get ?item ''id'' = PStr ?long"
    and g3: "dict_get [(''items'', PList [])] ''items'' = PList []"
    and g4: "dict_get [] k = PNone" for k
    by (simp_all add: dict_get_def)
  have n: "36 < length ?long"
    by simp
  have b1: "checks_before ''items'' ?data [] = Inr ()"
    by (simp add: checks_before_def pay_checks_def check_rules rule_defs)
  have b2: "checks_before ''items'' [(''items'', PList [])] [] = Inr ()"
    by (simp add: checks_before_def pay_checks_def check_rules rule_defs)
  show ?thesis
    using items_rule [of ?data "[]" "[]" ?item "[]" ?long "[]"]
      items_rule [of "[(''items'', PList [])]" "[]" "[]" "[]" "[]" "[]" "[]"]
      g1 g2 g3 g4 n b1 b2
    by simp
qed

subsection \<open>Callback signatures\<close>

lemma dict_set_fresh: "k \<notin> fst ` set d \<Longrightarrow> dict_set d k v = d @ [(k, v)]"
  by (induction d) auto

lemma foldl_dict_set_distinct:
  "distinct (map fst (acc @ kvs)) \<Longrightarrow>
   foldl (\<lambda>d (k, v). dict_set d k v) acc kvs = acc @ kvs"
proof (induction kvs arbitrary: acc)
  case Nil
  show ?case by simp
next
  case (Cons kv kvs)
  obtain k v where kv: "kv = (k, v)" by (cases kv)
  from Cons.prems have fresh: "k \<notin> fst ` set acc"
    by (auto simp: kv)
  from Cons.prems have "distinct (map fst ((acc @ [(k, v)]) @ kvs))"
    by (simp add: kv)
  from Cons.IH [OF this] show ?case
    by (simp add: kv dict_set_fresh [OF fresh])
qed

lemma dict_of_pairs_distinct: "distinct (map fst kvs) \<Longrightarrow> dict_of_pairs kvs = kvs"
  using foldl_dict_set_distinct [of "[]" kvs] by (simp add: dict_of_pairs_def)

lemma distinct_keys_sorted_items:
  "distinct (map fst kvs) \<Longrightarrow> distinct (map fst (sorted_items kvs))"
proof -
  have "mset (map fst (sorted_items kvs)) = mset (map fst kvs)"
    by (simp add: sorted_items_def)
  then show "distinct (map fst kvs) \<Longrightarrow> distinct (map fst (sorted_items kvs))"
    using mset_eq_imp_distinct_iff by blast
qed

lemma strings_of_PStr: "strings_of (map PStr ss @ [PStr s]) = Some (ss @ [s])"
  by (induction ss) simp_all

lemma py_join_strings: "py_join sep (map PStr ss @ [PStr s]) = Inr (join_with sep (ss @ [s]))"
  by (simp add: py_join_def strings_of_PStr)

lemma b64_char_ascii: "is_ascii (b64_char n)"
proof -
  have "list_all is_ascii b64_alphabet"
    by (simp add: b64_alphabet_def is_ascii_def)
  moreover have "n mod 64 < length b64_alphabet"
    by (simp add: b64_alphabet_def)
  ultimately show ?thesis
    unfolding b64_char_def by (simp add: list_all_length)
qed

lemma b64encode_ascii: "list_all is_ascii (b64encode bs)"
proof (induction bs rule: b64encode.induct)
  case 1
  show ?case by simp
next
  case (2 a)
  show ?case by (simp add: Let_def b64_char_ascii) (simp add: is_ascii_def)
next
  case (3 a b)
  show ?case by (simp add: Let_def b64_char_ascii) (simp add: is_ascii_def)
next
  case (4 a b c rest)
  then show ?case by (simp add: Let_def b64_char_ascii)
qed

lemma compare_digest_b64:
  "compare_digest (PStr (b64encode bs)) (PStr s) = Inr True \<longleftrightarrow> s = b64encode bs"
  using b64encode_ascii [of bs] by auto

lemma sign_string_distinct:
  assumes "distinct (map fst result)"
  shows "py_join '':''
      (dict_values (dict_of_pairs
          (map (\<lambda>(key, value). (key, PStr (if value \<noteq> PNone then py_str repr value else '''')))
               (sorted_items result)))
       @ [PStr secret])
    = Inr (canonical_string repr result secret)"
proof -
  let ?f = "\<lambda>(key, value). (key, PStr (if value \<noteq> PNone then py_str repr value else ''''))"
  let ?g = "\<lambda>(key, value). if value = PNone then '''' else py_str repr value"
  have keys: "map fst (map ?f (sorted_items result)) = map fst (sorted_items result)"
    by (simp add: case_prod_unfold)
  have "distinct (map fst (map ?f (sorted_items result)))"
    unfolding keys using assms by (rule distinct_keys_sorted_items)
  then have d: "dict_of_pairs (map ?f (sorted_items result)) = map ?f (sorted_items result)"
    by (rule dict_of_pairs_distinct)
  have v: "map snd (map ?f (sorted_items result)) = map PStr (map ?g (sorted_items result))"
    by (simp add: case_prod_unfold)
  show ?thesis
    unfolding dict_values_def d v py_join_strings canonical_string_def
    by (simp only: sorted_items_def)
qed

text \<open>
  Claim C1. For a notification with a non-empty secret, a non-empty signature and a
  non-empty result, \<open>validate_callback_signature\<close> of \<open>maib_sdk.py\<close> returns true exactly
  when the signature is the base64 text of the SHA-256 digest of the values of the
  result in the order of their keys, null as the empty string, followed by the secret,
  all joined by a colon.
\<close>

theorem callback_signature_accepts_expected:
  assumes "dict_get callback_data ''signature'' = PStr signature" and "signature \<noteq> []"
    and "dict_get callback_data ''result'' = PDict result" and "result \<noteq> []"
    and "distinct (map fst result)"
    and "secret \<noteq> []"
  shows "MaibSdk_validate_callback_signature repr sha256 callback_data (PStr secret) = Inr True
     \<longleftrightarrow> signature = expected_signature repr sha256 result secret"
  using assms
  by (simp add: MaibSdk_validate_callback_signature_def Let_def sign_string_distinct
      compare_digest_b64 expected_signature_def del: compare_digest.simps)

theorem callback_signature_accepts_expected_witness:
  "MaibSdk_validate_callback_signature (\<lambda>v. '''') (map (\<lambda>c. of_nat (of_char c)))
      [(''result'', PDict [(''b'', PStr ''1''), (''a'', PNone)]),
       (''signature'', PStr ''OjE6aw=='')]
      (PStr ''k'') = Inr True
   \<and> MaibSdk_validate_callback_signature (\<lambda>v. '''') (map (\<lambda>c. of_nat (of_char c)))
      [(''result'', PDict [(''b'', PStr ''1''), (''a'', PNone)]),
       (''signature'', PStr ''OjE6bw=='')]
      (PStr ''k'') \<noteq> Inr True"
proof -
  let ?sha = "map (\<lambda>c. of_nat (of_char c)) :: string \<Rightarrow> 8 word list"
  let ?result = "[(''b'', PStr ''1''), (''a'', PNone)]"
  let ?data = "\<lambda>s. [(''result'', PDict ?result), (''signature'', PStr s)]"
  have c: "canonical_string (\<lambda>v. '''') ?result ''k'' = '':1:k''"
    by (simp add: canonical_string_def)
  have e: "expected_signature (\<lambda>v. '''') ?sha ?result ''k'' = ''OjE6aw==''"
    unfolding expected_signature_def c
    by (simp add: Let_def b64_char_def b64_alphabet_def)
  have g: "dict_get (?data s) ''signature'' = PStr s"
    "dict_get (?data s) ''result'' = PDict ?result" for s
    by (simp_all add: dict_get_def)
  have d: "distinct (map fst ?result)" "?result \<noteq> []" "''k'' \<noteq> []"
    "''OjE6aw=='' \<noteq> []" "''OjE6bw=='' \<noteq> []"
    by simp_all
  show ?thesis
    using callback_signature_accepts_expected
        [OF g(1) d(4) g(2) d(2) d(1) d(3), of "\<lambda>v. ''''" ?sha]
      callback_signature_accepts_expected
        [OF g(1) d(5) g(2) d(2) d(1) d(3), of "\<lambda>v. ''''" ?sha]
    unfolding e by simp
qed

lemma py_items_Inl: "py_items v = Inl e \<Longrightarrow> e = AttributeError"
  by (cases v) auto

lemma py_join_Inl: "py_join sep vs = Inl e \<Longrightarrow> e = TypeError"
  by (auto simp: py_join_def split: option.splits)

lemma compare_digest_Inl: "compare_digest a b = Inl e \<Longrightarrow> e = TypeError"
  by (cases "(a, b)" rule: compare_digest.cases) (auto split: if_splits)

lemma callback_signature_missing_data:
  "(\<exists>f. MaibSdk_validate_callback_signature repr sha256 callback_data signature_key
          = Inl (MaibPaymentException f))
   \<longleftrightarrow> \<not> truthy signature_key \<or> \<not> truthy (dict_get callback_data ''signature'')
        \<or> \<not> truthy (dict_get callback_data ''result'')"
  by (auto simp: MaibSdk_validate_callback_signature_def Let_def
      split: sum.splits dest!: py_items_Inl py_join_Inl compare_digest_Inl)

lemma callback_signature_returns:
  assumes "dict_get callback_data ''signature'' = PStr signature" and "signature \<noteq> []"
    and "list_all is_ascii signature"
    and "dict_get callback_data ''result'' = PDict result" and "result \<noteq> []"
    and "distinct (map fst result)"
    and "secret \<noteq> []"
  shows "MaibSdk_validate_callback_signature repr sha256 callback_data (PStr secret)
     = Inr (signature = expected_signature repr sha256 result secret)"
  using assms b64encode_ascii [of "sha256 (canonical_string repr result secret)"]
  by (auto simp add: MaibSdk_validate_callback_signature_def Let_def sign_string_distinct
      expected_signature_def)

text \<open>
  Claim C3. The payment exception is raised exactly when the secret, the signature or
  the result is missing or empty (\<open>callback_signature_missing_data\<close>), and a boolean comes
  back when all three are there and the signature is ASCII text
  (\<open>callback_signature_returns\<close>). A non-empty signature with a character outside ASCII
  is neither case: \<open>hmac.compare_digest\<close> raises \<open>TypeError\<close>.
\<close>

theorem callback_signature_non_ascii_raises:
  "MaibSdk_validate_callback_signature repr sha256
      [(''signature'', PStr [CHR 0xE9]), (''result'', PDict [(''a'', PStr ''1'')])]
      (PStr ''k'') = Inl TypeError"
  by (simp add: MaibSdk_validate_callback_signature_def Let_def dict_get_def sorted_items_def
      dict_of_pairs_def dict_values_def py_join_def is_ascii_def)

lemma callback_signature_legacy_non_ascii:
  "MAIBSDK_validate_callback_signature repr sha256
      [(''signature'', PStr [CHR 0xE9]), (''result'', PDict [(''a'', PStr ''1'')])]
      (PStr ''k'') = Inr False"
  using b64encode_ascii [of "sha256 ''1:k''"]
  by (auto simp add: MAIBSDK_validate_callback_signature_def Let_def dict_get_def sorted_items_def
      dict_of_pairs_def dict_values_def py_join_def is_ascii_def)

lemma callback_signature_null_value:
  "MaibSdk_validate_callback_signature repr sha256
      [(''signature'', PStr s), (''result'', PDict [(''a'', PNone)])] (PStr ''k'')
     = (if s = [] then Inl (MaibPaymentException MissingSignatureData)
        else compare_digest (PStr (b64encode (sha256 '':k''))) (PStr s))
   \<and> MAIBSDK_validate_callback_signature repr sha256
      [(''signature'', PStr s), (''result'', PDict [(''a'', PNone)])] (PStr ''k'')
     = (if s = [] then Inl (MAIBPaymentException MissingCallbackSignature)
        else Inr (b64encode (sha256 ''None:k'') = s))"
  by (cases "s = []")
    (simp_all add: MaibSdk_validate_callback_signature_def MAIBSDK_validate_callback_signature_def
      Let_def dict_get_def sorted_items_def dict_of_pairs_def dict_values_def py_join_def
      del: compare_digest.simps)

text \<open>
  Claim C2. The two variants differ. With an empty secret \<open>maib_sdk.py\<close> raises its
  exception and \<open>maibsdk.py\<close> computes a signature and returns a boolean; with a null
  value the two hash different strings (\<open>callback_signature_null_value\<close>), and on a
  signature outside ASCII one raises and the other returns false.
\<close>

theorem callback_signature_variants_differ:
  "MaibSdk_validate_callback_signature repr sha256
      [(''signature'', PStr ''x''), (''result'', PDict [(''a'', PStr ''1'')])] (PStr '''')
     = Inl (MaibPaymentException InvalidSignatureKey)
   \<and> MAIBSDK_validate_callback_signature repr sha256
      [(''signature'', PStr ''x''), (''result'', PDict [(''a'', PStr ''1'')])] (PStr '''')
     = Inr (b64encode (sha256 ''1:'') = ''x'')"
  by (simp add: MaibSdk_validate_callback_signature_def MAIBSDK_validate_callback_signature_def
      Let_def dict_get_def sorted_items_def dict_of_pairs_def dict_values_def py_join_def)

end
